theory Spec2Isabelle
  imports Complex_Main
begin

section \<open>The whiteboard engine of svg-reveal.js\<close>

text \<open>
  A shallow embedding of the object/transform engine of \<^verbatim>\<open>src/svg-reveal.js\<close>: camera,
  drawable objects, bounds and hit-testing, the pointer-move gesture handlers, the
  undo/redo snapshots, the reveal cursor and the object loop of the vector export.

  JavaScript numbers are modelled as \<^typ>\<open>real\<close>; there is no \<^verbatim>\<open>NaN\<close> and no
  infinity. The camera zoom (\<^verbatim>\<open>setZoomTo\<close>) and the hit test on segments
  (\<^verbatim>\<open>distToSeg\<close>), whose properties are about the computed numbers themselves, are
  given in double arithmetic: every operation rounds its exact result to the nearest
  double. The other functions are given in exact arithmetic. Mutation of the global \<^verbatim>\<open>state\<close> and
  \<^verbatim>\<open>gesture\<close> objects is explicit state passing. Calls that only repaint
  (\<^verbatim>\<open>redrawAll\<close>, \<^verbatim>\<open>applyBgTransform\<close>, \<^verbatim>\<open>applySvgTransform\<close>, \<^verbatim>\<open>drawUI\<close>, \<^verbatim>\<open>drawInk\<close>,
  cursor styling, toasts) write nothing that the modelled functions read and are left out.
\<close>

subsection \<open>Helpers\<close>

text \<open>\<^verbatim>\<open>const clamp = (v, a, b) => Math.max(a, Math.min(b, v));\<close>\<close>

definition clamp :: "real \<Rightarrow> real \<Rightarrow> real \<Rightarrow> real" where
  "clamp v a b = max a (min b v)"

text \<open>\<^verbatim>\<open>Math.hypot(x, y)\<close>\<close>

definition hypot :: "real \<Rightarrow> real \<Rightarrow> real" where
  "hypot x y = sqrt (x * x + y * y)"

text \<open>
  \<^verbatim>\<open>Math.atan2(y, x)\<close>, by the usual case distinction on the quadrant; the result lies in
  \<open>(-\<pi>, \<pi>]\<close> (signed zeros do not exist in the model).
\<close>

definition atan2 :: "real \<Rightarrow> real \<Rightarrow> real" where
  "atan2 y x =
     (if 0 < x then arctan (y / x)
      else if x < 0 then (if 0 \<le> y then arctan (y / x) + pi else arctan (y / x) - pi)
      else if 0 < y then pi / 2
      else if y < 0 then - (pi / 2)
      else 0)"

text \<open>\<^verbatim>\<open>isFinite(v)\<close>: every real number is finite.\<close>

definition isFinite :: "real \<Rightarrow> bool" where
  "isFinite v = True"

text \<open>\<^verbatim>\<open>v || d\<close> on a number: the default replaces a falsy (zero) value.\<close>

definition orElse :: "real \<Rightarrow> real \<Rightarrow> real" where
  "orElse v d = (if v = 0 then d else v)"

subsection \<open>Double arithmetic\<close>

text \<open>
  A JavaScript number is an IEEE 754 double, and \<open>+\<close>, \<open>-\<close>, \<open>*\<close>, \<open>/\<close> return the exact
  result rounded to the nearest double, ties to the even significand. \<open>roundEven\<close> is
  that rounding to an integer, and \<open>fl x\<close> rounds \<open>x\<close> to 53 significant bits: with
  \<open>2\<^sup>e \<le> \<bar>x\<bar> < 2\<^sup>e\<^sup>+\<^sup>1\<close> the doubles near \<open>x\<close> are the multiples of \<open>2\<^sup>e\<^sup>-\<^sup>5\<^sup>2\<close>.
  The exponent is not bounded: overflow (from \<open>2\<^sup>1\<^sup>0\<^sup>2\<^sup>4\<close>) and the subnormal
  numbers (below \<open>2\<^sup>-\<^sup>1\<^sup>0\<^sup>2\<^sup>2\<close>) are not modelled.
\<close>

definition roundEven :: "real \<Rightarrow> int" where
  "roundEven y =
     (let f = \<lfloor>y\<rfloor>; r = y - of_int f
      in if r < 1 / 2 then f else if 1 / 2 < r then f + 1 else if even f then f else f + 1)"

definition fl :: "real \<Rightarrow> real" where
  "fl x =
     (if x = 0 then 0
      else let e = \<lfloor>log 2 \<bar>x\<bar>\<rfloor>; q = 2 powi (e - 52)
           in of_int (roundEven (x / q)) * q)"

definition fadd :: "real \<Rightarrow> real \<Rightarrow> real" where
  "fadd a b = fl (a + b)"

definition fsub :: "real \<Rightarrow> real \<Rightarrow> real" where
  "fsub a b = fl (a - b)"

definition fmul :: "real \<Rightarrow> real \<Rightarrow> real" where
  "fmul a b = fl (a * b)"

definition fdiv :: "real \<Rightarrow> real \<Rightarrow> real" where
  "fdiv a b = fl (a / b)"

text \<open>
  \<^verbatim>\<open>Math.hypot\<close> is left to the implementation by the language standard; it is a
  parameter \<open>hyp\<close> of the functions that call it in double arithmetic. \<open>hypotD\<close> is
  the instance that returns the exact value correctly rounded.
\<close>

definition hypotD :: "real \<Rightarrow> real \<Rightarrow> real" where
  "hypotD x y = fl (sqrt (x * x + y * y))"

type_synonym point = "real \<times> real"

subsection \<open>Data model\<close>

datatype shape_kind = Line | Rect | Circle | Arrow

text \<open>
  The drawable objects, by their \<^verbatim>\<open>kind\<close> field:
  \<^verbatim>\<open>{kind:"stroke", color, size, points}\<close>, \<^verbatim>\<open>{kind:"erase", size, points}\<close>,
  \<^verbatim>\<open>{kind: line|rect|circle|arrow, color, size, x1, y1, x2, y2, rot}\<close> and
  \<^verbatim>\<open>{kind:"text", x, y, text, color, fontSize, rot}\<close>.
\<close>

datatype obj =
    Stroke string real "point list"
  | Erase real "point list"
  | Shape shape_kind string real real real real real real
  | Text real real string string real real

record svg_state =
  svg_src :: string
  svg_x :: real
  svg_y :: real
  svg_scale :: real
  svg_rot :: real
  svg_viewBox :: string
  svg_step :: int
  svg_total :: int

record bg_state =
  bg_src :: string
  bg_natW :: real
  bg_natH :: real
  bg_x :: real
  bg_y :: real
  bg_scale :: real
  bg_rot :: real

text \<open>
  What \<^verbatim>\<open>snapshot()\<close> returns and \<^verbatim>\<open>applySnapshot(snap)\<close> reads. \<^verbatim>\<open>applySnapshot\<close>
  provides for absent fields \<^verbatim>\<open>snap.svg\<close> and \<^verbatim>\<open>snap.bg\<close>, hence the options.
\<close>

record snap =
  snap_tool :: string
  snap_color :: string
  snap_size :: real
  snap_zoom :: real
  snap_panX :: real
  snap_panY :: real
  snap_title :: string
  snap_svg :: "svg_state option"
  snap_bg :: "bg_state option"
  snap_objects :: "obj list"

text \<open>
  The global \<^verbatim>\<open>state\<close>. The undo and redo stacks hold \<^verbatim>\<open>JSON.stringify(snapshot())\<close>;
  a stack entry is modelled by the snapshot value it serialises (last element = top).
\<close>

record state =
  tool :: string
  color :: string
  brush_size :: real
  zoom :: real
  panX :: real
  panY :: real
  title :: string
  svg :: svg_state
  bg :: bg_state
  objects :: "obj list"
  undo_stack :: "snap list"
  redo_stack :: "snap list"
  selectionIndex :: int

record box =
  minX :: real
  minY :: real
  maxX :: real
  maxY :: real

definition default_svg :: svg_state where
  "default_svg = \<lparr>svg_src = [], svg_x = 0, svg_y = 0, svg_scale = 1, svg_rot = 0,
                   svg_viewBox = [], svg_step = -1, svg_total = 0\<rparr>"

definition default_bg :: bg_state where
  "default_bg = \<lparr>bg_src = [], bg_natW = 0, bg_natH = 0, bg_x = 0, bg_y = 0,
                  bg_scale = 1, bg_rot = 0\<rparr>"

subsection \<open>Camera\<close>

definition screenToWorld :: "state \<Rightarrow> real \<Rightarrow> real \<Rightarrow> point" where
  "screenToWorld s sx sy = ((sx - panX s) / zoom s, (sy - panY s) / zoom s)"

definition worldToScreen :: "state \<Rightarrow> real \<Rightarrow> real \<Rightarrow> point" where
  "worldToScreen s wx wy = (wx * zoom s + panX s, wy * zoom s + panY s)"

text \<open>
  \<^verbatim>\<open>screenToWorld\<close> and \<^verbatim>\<open>setZoomTo\<close> in double arithmetic. \<^verbatim>\<open>clamp\<close> only selects
  one of its arguments and does not round.
\<close>

definition screenToWorld_dbl :: "state \<Rightarrow> real \<Rightarrow> real \<Rightarrow> point" where
  "screenToWorld_dbl s sx sy = (fdiv (fsub sx (panX s)) (zoom s), fdiv (fsub sy (panY s)) (zoom s))"

definition setZoomTo :: "real \<Rightarrow> real \<Rightarrow> real \<Rightarrow> state \<Rightarrow> state" where
  "setZoomTo newZoom anchorSX anchorSY s =
     (let z = clamp newZoom 0.25 6;
          old = zoom s;
          worldX = fdiv (fsub anchorSX (panX s)) old;
          worldY = fdiv (fsub anchorSY (panY s)) old
      in s\<lparr>zoom := z, panX := fsub anchorSX (fmul worldX z),
                       panY := fsub anchorSY (fmul worldY z)\<rparr>)"

subsection \<open>Bounds\<close>

text \<open>
  \<^verbatim>\<open>textMetrics(obj)\<close>. The width comes from the canvas call \<^verbatim>\<open>measureText\<close>, which is
  a parameter \<open>mt\<close> of the model: \<open>mt fontSize text\<close> is the measured width.
\<close>

definition textMetrics :: "(real \<Rightarrow> string \<Rightarrow> real) \<Rightarrow> real \<Rightarrow> string \<Rightarrow> real \<times> real \<times> real" where
  "textMetrics mt fontSize txt =
     (let fs = orElse fontSize 20 in (mt fs txt, fs * 1.25, fs))"

text \<open>
  The running minimum and maximum of the bounds loops. The source starts them at
  \<^verbatim>\<open>Infinity\<close> and \<^verbatim>\<open>-Infinity\<close>; every loop runs over at least one point, so the first
  point takes that place.
\<close>

fun minl :: "real list \<Rightarrow> real" where
  "minl [] = 0"
| "minl (v # vs) = fold min vs v"

fun maxl :: "real list \<Rightarrow> real" where
  "maxl [] = 0"
| "maxl (v # vs) = fold max vs v"

definition boundsOf :: "point list \<Rightarrow> real \<Rightarrow> box" where
  "boundsOf pts pad =
     \<lparr>minX = minl (map fst pts) - pad, minY = minl (map snd pts) - pad,
      maxX = maxl (map fst pts) + pad, maxY = maxl (map snd pts) + pad\<rparr>"

definition rotCorners :: "real \<Rightarrow> real \<Rightarrow> real \<Rightarrow> real \<Rightarrow> real \<Rightarrow> point list" where
  "rotCorners cx cy w h ang =
     map (\<lambda>(px, py). (cx + px * cos ang - py * sin ang, cy + px * sin ang + py * cos ang))
       [(- w / 2, - h / 2), (w / 2, - h / 2), (w / 2, h / 2), (- w / 2, h / 2)]"

definition ellipseSamples :: "real \<Rightarrow> real \<Rightarrow> real \<Rightarrow> real \<Rightarrow> real \<Rightarrow> point list" where
  "ellipseSamples cx cy rx ry ang =
     map (\<lambda>i. let t = (real i / 16) * pi * 2; ex = cos t * rx; ey = sin t * ry
               in (cx + ex * cos ang - ey * sin ang, cy + ex * sin ang + ey * cos ang))
       [0..<16]"

fun objectBounds :: "(real \<Rightarrow> string \<Rightarrow> real) \<Rightarrow> obj \<Rightarrow> box" where
  "objectBounds mt (Text x y txt col fontSize rot) =
     (case textMetrics mt fontSize txt of (w, h, fs) \<Rightarrow>
        boundsOf (rotCorners (x + w / 2) (y + h / 2) w h rot) 0)"
| "objectBounds mt (Stroke col sz pts) =
     (if pts = [] then \<lparr>minX = 0, minY = 0, maxX = 0, maxY = 0\<rparr>
      else boundsOf pts (orElse sz 6 * 0.8))"
| "objectBounds mt (Erase sz pts) =
     (if pts = [] then \<lparr>minX = 0, minY = 0, maxX = 0, maxY = 0\<rparr>
      else boundsOf pts (orElse sz 6 * 0.8))"
| "objectBounds mt (Shape Rect col sz x1 y1 x2 y2 rot) =
     boundsOf (rotCorners ((x1 + x2) / 2) ((y1 + y2) / 2) \<bar>x2 - x1\<bar> \<bar>y2 - y1\<bar> rot)
       (orElse sz 4 * 1.0)"
| "objectBounds mt (Shape Circle col sz x1 y1 x2 y2 rot) =
     boundsOf (ellipseSamples ((x1 + x2) / 2) ((y1 + y2) / 2) (\<bar>x2 - x1\<bar> / 2) (\<bar>y2 - y1\<bar> / 2) rot)
       (orElse sz 4 * 1.0)"
| "objectBounds mt (Shape k col sz x1 y1 x2 y2 rot) =
     (let pad = orElse sz 4 * 1.0
      in \<lparr>minX = min x1 x2 - pad, minY = min y1 y2 - pad,
          maxX = max x1 x2 + pad, maxY = max y1 y2 + pad\<rparr>)"

subsection \<open>Hit-testing\<close>

text \<open>\<^verbatim>\<open>distToSeg\<close> in double arithmetic, with \<^verbatim>\<open>Math.hypot\<close> as the parameter \<open>hyp\<close>.\<close>

definition distToSeg ::
  "(real \<Rightarrow> real \<Rightarrow> real) \<Rightarrow> real \<Rightarrow> real \<Rightarrow> real \<Rightarrow> real \<Rightarrow> real \<Rightarrow> real \<Rightarrow> real" where
  "distToSeg hyp px py x1 y1 x2 y2 =
     (let dx = fsub x2 x1; dy = fsub y2 y1
      in if dx = 0 \<and> dy = 0 then hyp (fsub px x1) (fsub py y1)
         else let t = fdiv (fadd (fmul (fsub px x1) dx) (fmul (fsub py y1) dy))
                        (fadd (fmul dx dx) (fmul dy dy));
                  tt = clamp t 0 1;
                  cx = fadd x1 (fmul tt dx);
                  cy = fadd y1 (fmul tt dy)
              in hyp (fsub px cx) (fsub py cy))"

text \<open>
  The distance of the point \<open>(px, py)\<close> from the segment between \<open>(x1, y1)\<close> and
  \<open>(x2, y2)\<close> in exact arithmetic: what \<^verbatim>\<open>distToSeg\<close> computes up to rounding.
\<close>

definition segmentDistance :: "real \<Rightarrow> real \<Rightarrow> real \<Rightarrow> real \<Rightarrow> real \<Rightarrow> real \<Rightarrow> real" where
  "segmentDistance px py x1 y1 x2 y2 =
     (let dx = x2 - x1; dy = y2 - y1
      in if dx = 0 \<and> dy = 0 then hypot (px - x1) (py - y1)
         else let t = ((px - x1) * dx + (py - y1) * dy) / (dx * dx + dy * dy);
                  tt = clamp t 0 1;
                  cx = x1 + tt * dx;
                  cy = y1 + tt * dy
              in hypot (px - cx) (py - cy))"

text \<open>
  The loop \<^verbatim>\<open>for (let i = 1; i < pts.length; i++)\<close> of \<^verbatim>\<open>hitObject\<close> over the
  consecutive pairs \<^verbatim>\<open>pts[i-1], pts[i]\<close>, returning at the first segment within \<open>tol\<close>.
\<close>

fun hitSegments :: "(real \<Rightarrow> real \<Rightarrow> real) \<Rightarrow> real \<Rightarrow> real \<Rightarrow> real \<Rightarrow> point list \<Rightarrow> bool" where
  "hitSegments hyp wx wy tol (p # q # rest) =
     (if distToSeg hyp wx wy (fst p) (snd p) (fst q) (snd q) \<le> tol then True
      else hitSegments hyp wx wy tol (q # rest))"
| "hitSegments hyp wx wy tol ps = False"

text \<open>\<^verbatim>\<open>obj.size\<close>; a text object has no such field (\<^verbatim>\<open>undefined\<close>, which is falsy: 0).\<close>

fun obj_size :: "obj \<Rightarrow> real" where
  "obj_size (Stroke col sz pts) = sz"
| "obj_size (Erase sz pts) = sz"
| "obj_size (Shape k col sz x1 y1 x2 y2 rot) = sz"
| "obj_size (Text x y txt col fontSize rot) = 0"

text \<open>\<^verbatim>\<open>Math.max(8, (obj.size || 4) * 1.5)\<close>, the product in double arithmetic.\<close>

definition hitTol :: "obj \<Rightarrow> real" where
  "hitTol ob = max 8 (fmul (orElse (obj_size ob) 4) 1.5)"

text \<open>
  \<^verbatim>\<open>hitObject\<close>. The segment branches (stroke, erase, line, arrow) are in double
  arithmetic; the text, rectangle and ellipse branches are in exact arithmetic.
\<close>

fun hitObject :: "(real \<Rightarrow> string \<Rightarrow> real) \<Rightarrow> (real \<Rightarrow> real \<Rightarrow> real) \<Rightarrow> obj \<Rightarrow> real \<Rightarrow> real \<Rightarrow> bool" where
  "hitObject mt hyp (Text x y txt col fontSize rot) wx wy =
     (let b = objectBounds mt (Text x y txt col fontSize rot)
      in minX b \<le> wx \<and> wx \<le> maxX b \<and> minY b \<le> wy \<and> wy \<le> maxY b)"
| "hitObject mt hyp (Stroke col sz pts) wx wy =
     hitSegments hyp wx wy (hitTol (Stroke col sz pts)) pts"
| "hitObject mt hyp (Erase sz pts) wx wy =
     hitSegments hyp wx wy (hitTol (Erase sz pts)) pts"
| "hitObject mt hyp (Shape Line col sz x1 y1 x2 y2 rot) wx wy =
     (distToSeg hyp wx wy x1 y1 x2 y2 \<le> hitTol (Shape Line col sz x1 y1 x2 y2 rot))"
| "hitObject mt hyp (Shape Arrow col sz x1 y1 x2 y2 rot) wx wy =
     (distToSeg hyp wx wy x1 y1 x2 y2 \<le> hitTol (Shape Arrow col sz x1 y1 x2 y2 rot))"
| "hitObject mt hyp (Shape Rect col sz x1 y1 x2 y2 rot) wx wy =
     (let cx = (x1 + x2) / 2; cy = (y1 + y2) / 2;
          rw = \<bar>x2 - x1\<bar>; rh = \<bar>y2 - y1\<bar>;
          c = cos (- rot); sn = sin (- rot);
          lx = (wx - cx) * c - (wy - cy) * sn;
          ly = (wx - cx) * sn + (wy - cy) * c
      in \<bar>lx\<bar> \<le> rw / 2 \<and> \<bar>ly\<bar> \<le> rh / 2)"
| "hitObject mt hyp (Shape Circle col sz x1 y1 x2 y2 rot) wx wy =
     (let cx = (x1 + x2) / 2; cy = (y1 + y2) / 2;
          rx = \<bar>x2 - x1\<bar> / 2; ry = \<bar>y2 - y1\<bar> / 2
      in if rx < 1 \<or> ry < 1 then False
         else let c = cos (- rot); sn = sin (- rot);
                  lx = (wx - cx) * c - (wy - cy) * sn;
                  ly = (wx - cx) * sn + (wy - cy) * c;
                  nx = lx / rx; ny = ly / ry
              in nx * nx + ny * ny \<le> 1.2)"

subsection \<open>Move, scale, rotate\<close>

fun moveObject :: "obj \<Rightarrow> real \<Rightarrow> real \<Rightarrow> obj" where
  "moveObject (Text x y txt col fontSize rot) dx dy = Text (x + dx) (y + dy) txt col fontSize rot"
| "moveObject (Stroke col sz pts) dx dy = Stroke col sz (map (\<lambda>(x, y). (x + dx, y + dy)) pts)"
| "moveObject (Erase sz pts) dx dy = Erase sz (map (\<lambda>(x, y). (x + dx, y + dy)) pts)"
| "moveObject (Shape k col sz x1 y1 x2 y2 rot) dx dy =
     Shape k col sz (x1 + dx) (y1 + dy) (x2 + dx) (y2 + dy) rot"

text \<open>The first lines of \<^verbatim>\<open>scaleObjectXY\<close>: the factor that is really applied.\<close>

definition scaleFactor :: "real \<Rightarrow> real" where
  "scaleFactor f = clamp (if \<not> isFinite f then 1 else f) (-20) 20"

fun scaleBy :: "obj \<Rightarrow> real \<Rightarrow> real \<Rightarrow> real \<Rightarrow> real \<Rightarrow> obj" where
  "scaleBy (Text x y txt col fontSize rot) fx fy ax ay =
     (let uni = max 0.2 ((\<bar>fx\<bar> + \<bar>fy\<bar>) / 2)
      in Text (ax + (x - ax) * fx) (ay + (y - ay) * fy) txt col (max 6 (fontSize * uni)) rot)"
| "scaleBy (Stroke col sz pts) fx fy ax ay =
     Stroke col sz (map (\<lambda>(x, y). (ax + (x - ax) * fx, ay + (y - ay) * fy)) pts)"
| "scaleBy (Erase sz pts) fx fy ax ay =
     Erase sz (map (\<lambda>(x, y). (ax + (x - ax) * fx, ay + (y - ay) * fy)) pts)"
| "scaleBy (Shape k col sz x1 y1 x2 y2 rot) fx fy ax ay =
     Shape k col sz (ax + (x1 - ax) * fx) (ay + (y1 - ay) * fy)
                    (ax + (x2 - ax) * fx) (ay + (y2 - ay) * fy) rot"

definition scaleObjectXY :: "obj \<Rightarrow> real \<Rightarrow> real \<Rightarrow> real \<Rightarrow> real \<Rightarrow> obj" where
  "scaleObjectXY ob fx fy ax ay = scaleBy ob (scaleFactor fx) (scaleFactor fy) ax ay"

definition rotatePoint :: "real \<Rightarrow> real \<Rightarrow> real \<Rightarrow> real \<Rightarrow> real \<Rightarrow> point" where
  "rotatePoint px py cx cy angle =
     (let dx = px - cx; dy = py - cy
      in (cx + dx * cos angle - dy * sin angle, cy + dx * sin angle + dy * cos angle))"

definition rotateObject :: "(real \<Rightarrow> string \<Rightarrow> real) \<Rightarrow> obj \<Rightarrow> real \<Rightarrow> obj" where
  "rotateObject mt ob angle =
     (let b = objectBounds mt ob;
          cx = (minX b + maxX b) / 2;
          cy = (minY b + maxY b) / 2
      in case ob of
           Text x y txt col fontSize rot \<Rightarrow> Text x y txt col fontSize (rot + angle)
         | Stroke col sz pts \<Rightarrow> Stroke col sz (map (\<lambda>(x, y). rotatePoint x y cx cy angle) pts)
         | Erase sz pts \<Rightarrow> Erase sz (map (\<lambda>(x, y). rotatePoint x y cx cy angle) pts)
         | Shape k col sz x1 y1 x2 y2 rot \<Rightarrow>
             (if k = Rect \<or> k = Circle then Shape k col sz x1 y1 x2 y2 (rot + angle)
              else case (rotatePoint x1 y1 cx cy angle, rotatePoint x2 y2 cx cy angle) of
                     ((a1, b1), (a2, b2)) \<Rightarrow> Shape k col sz a1 b1 a2 b2 rot))"

subsection \<open>The reveal cursor\<close>

text \<open>
  \<^verbatim>\<open>svgNodes\<close> is the list of revealable DOM nodes; the model keeps of each node what
  \<^verbatim>\<open>revealTo\<close> writes: whether its \<^verbatim>\<open>style.visibility\<close> is \<^verbatim>\<open>"visible"\<close>.
\<close>

definition revealTo :: "int \<Rightarrow> bool list \<times> state \<Rightarrow> bool list \<times> state" where
  "revealTo step ns =
     (case ns of (svgNodes, s) \<Rightarrow>
        let c = max (-1) (min (int (length svgNodes) - 1) step)
        in (map (\<lambda>i. int i \<le> c) [0..<length svgNodes], s\<lparr>svg := (svg s)\<lparr>svg_step := c\<rparr>\<rparr>))"

datatype key = ArrowRight | ArrowDown | ArrowLeft | ArrowUp | Home | End | OtherKey

text \<open>
  The reveal-stepping part of the \<^verbatim>\<open>keydown\<close> handler (\<open>typing\<close>: the focus is in an
  input field; \<open>shiftKey\<close> makes the jump 5).
\<close>

definition keydownReveal :: "bool \<Rightarrow> bool \<Rightarrow> key \<Rightarrow> bool list \<times> state \<Rightarrow> bool list \<times> state" where
  "keydownReveal typing shiftKey k ns =
     (case ns of (svgNodes, s) \<Rightarrow>
        if \<not> typing \<and> svgNodes \<noteq> [] then
          (let jump = (if shiftKey then 5 else 1) in
           if k = ArrowRight \<or> k = ArrowDown then revealTo (svg_step (svg s) + jump) ns
           else if k = ArrowLeft \<or> k = ArrowUp then revealTo (svg_step (svg s) - jump) ns
           else if k = Home then revealTo (-1) ns
           else if k = End then revealTo (int (length svgNodes) - 1) ns
           else ns)
        else ns)"

subsection \<open>Undo and redo\<close>

text \<open>
  \<^verbatim>\<open>deepClone(obj) = JSON.parse(JSON.stringify(obj))\<close>. Values of the model are immutable
  and hold finite numbers only, so the copy is the value itself.
\<close>

definition deepClone :: "'a \<Rightarrow> 'a" where
  "deepClone v = v"

definition snapshot :: "state \<Rightarrow> snap" where
  "snapshot s =
     \<lparr>snap_tool = tool s, snap_color = color s, snap_size = brush_size s,
      snap_zoom = zoom s, snap_panX = panX s, snap_panY = panY s,
      snap_title = title s, snap_svg = None, snap_bg = Some (bg s),
      snap_objects = deepClone (objects s)\<rparr>"

text \<open>\<^verbatim>\<open>v || d\<close> on a string: the empty string is falsy.\<close>

definition strOr :: "string \<Rightarrow> string \<Rightarrow> string" where
  "strOr v d = (if v = [] then d else v)"

definition applySnapshot :: "snap \<Rightarrow> state \<Rightarrow> state" where
  "applySnapshot sn s =
     s\<lparr>tool := strOr (snap_tool sn) ''pen'',
       color := strOr (snap_color sn) ''#111111'',
       brush_size := orElse (snap_size sn) 5,
       zoom := orElse (snap_zoom sn) 1,
       panX := orElse (snap_panX sn) 0,
       panY := orElse (snap_panY sn) 0,
       title := strOr (snap_title sn) [],
       svg := (case snap_svg sn of None \<Rightarrow> default_svg | Some v \<Rightarrow> v),
       bg := (case snap_bg sn of None \<Rightarrow> default_bg | Some b \<Rightarrow> b),
       objects := deepClone (snap_objects sn),
       selectionIndex := -1\<rparr>"

definition pushUndo :: "state \<Rightarrow> state" where
  "pushUndo s =
     (let u = undo_stack s @ [snapshot s]
      in s\<lparr>undo_stack := (if length u > 120 then tl u else u)\<rparr>)"

definition clearRedo :: "state \<Rightarrow> state" where
  "clearRedo s = s\<lparr>redo_stack := []\<rparr>"

definition undo :: "state \<Rightarrow> state" where
  "undo s =
     (if undo_stack s = [] then s
      else let r = redo_stack s @ [snapshot s]
           in applySnapshot (last (undo_stack s))
                (s\<lparr>redo_stack := r, undo_stack := butlast (undo_stack s)\<rparr>))"

definition redo :: "state \<Rightarrow> state" where
  "redo s =
     (if redo_stack s = [] then s
      else let u = undo_stack s @ [snapshot s]
           in applySnapshot (last (redo_stack s))
                (s\<lparr>undo_stack := u, redo_stack := butlast (redo_stack s)\<rparr>))"

subsection \<open>Angle snapping\<close>

definition snapsDeg :: "real list" where
  "snapsDeg = [0, 30, 45, 60, 90, 120, 135, 150,
               -30, -45, -60, -90, -120, -135, -150, 180]"

definition snaps :: "real list" where
  "snaps = map (\<lambda>d. d * pi / 180) snapsDeg"

text \<open>\<^verbatim>\<open>Math.abs(Math.atan2(Math.sin(a - s), Math.cos(a - s)))\<close>\<close>

definition angDiff :: "real \<Rightarrow> real \<Rightarrow> real" where
  "angDiff a s = \<bar>atan2 (sin (a - s)) (cos (a - s))\<bar>"

text \<open>
  One round of the loop of \<^verbatim>\<open>snapAngleRad\<close> on \<open>(best, bestDiff)\<close>; \<open>None\<close> is the
  initial \<^verbatim>\<open>Infinity\<close>, below which every difference lies.
\<close>

definition snapStep :: "real \<Rightarrow> real \<times> real option \<Rightarrow> real \<Rightarrow> real \<times> real option" where
  "snapStep a bb s =
     (case bb of (best, bestDiff) \<Rightarrow>
        let diff = angDiff a s
        in case bestDiff of
             None \<Rightarrow> (s, Some diff)
           | Some b \<Rightarrow> (if diff < b then (s, Some diff) else (best, bestDiff)))"

definition snapAngleRad :: "real \<Rightarrow> real" where
  "snapAngleRad angleRad =
     (let a = atan2 (sin angleRad) (cos angleRad)
      in fst (foldl (snapStep a) (hd snaps, None) snaps))"

definition snapEndpointToAngles :: "real \<Rightarrow> real \<Rightarrow> real \<Rightarrow> real \<Rightarrow> point" where
  "snapEndpointToAngles x1 y1 x2 y2 =
     (let dx = x2 - x1; dy = y2 - y1; len = hypot dx dy
      in if len < 0.0001 then (x2, y2)
         else let ang = atan2 dy dx; snapped = snapAngleRad ang
              in (x1 + cos snapped * len, y1 + sin snapped * len))"


subsection \<open>Gestures\<close>

datatype gmode =
    MNone | Pan | DrawStroke | DrawErase | DrawShape | Select
  | SelMove | SelScale | SelRotate | BgMove | BgScale | BgRotate

text \<open>
  The global \<^verbatim>\<open>gesture\<close>. \<^verbatim>\<open>activeObj\<close> is a reference to the object that
  \<^verbatim>\<open>onPointerDown\<close> has just pushed onto \<^verbatim>\<open>state.objects\<close>; the model keeps the index
  of that object in the list.
\<close>

record gesture =
  active :: bool
  mode :: gmode
  startWorld :: "point option"
  startScreen :: "point option"
  lastWorld :: "point option"
  lastScreen :: "point option"
  activeObj :: "nat option"
  selIndex :: int
  selStartObj :: "obj option"
  selAnchor :: "point option"
  selStartVec :: "point option"
  selStartAngle :: real
  bgStart :: "bg_state option"

text \<open>
  A pointer event, after \<^verbatim>\<open>clientToScreen\<close>: the position relative to the canvas and
  the modifier keys.
\<close>

record pevent =
  ev_sx :: real
  ev_sy :: real
  shiftKey :: bool
  ctrlKey :: bool
  metaKey :: bool

datatype error = TypeError | SyntaxError

datatype hkind = HMove | HScale | HRotate

definition boundsCenter :: "box \<Rightarrow> point" where
  "boundsCenter b = ((minX b + maxX b) / 2, (minY b + maxY b) / 2)"

text \<open>
  \<^verbatim>\<open>beginSelectionTransform(kind, e, w, sx, sy)\<close>; the boolean is its return value.
  \<^verbatim>\<open>deepClone(state.objects[idx])\<close> throws when the index is past the end, since
  \<^verbatim>\<open>JSON.parse(undefined)\<close> is a syntax error.
\<close>

definition beginSelectionTransform ::
  "(real \<Rightarrow> string \<Rightarrow> real) \<Rightarrow> hkind \<Rightarrow> point \<Rightarrow> state \<times> gesture \<Rightarrow> error + (bool \<times> state \<times> gesture)" where
  "beginSelectionTransform mt kind w sg =
     (case sg of (s, g) \<Rightarrow>
        let idx = selectionIndex s in
        if idx < 0 then Inr (False, s, g)
        else let s1 = clearRedo (pushUndo s) in
          if nat idx \<ge> length (objects s1) then Inl SyntaxError
          else let ob = objects s1 ! nat idx;
                   c = boundsCenter (objectBounds mt ob);
                   g1 = g\<lparr>selIndex := idx, selStartObj := Some (deepClone ob), selAnchor := Some c\<rparr>
               in (case kind of
                     HMove \<Rightarrow> Inr (True, s1, g1\<lparr>mode := SelMove, startWorld := Some w\<rparr>)
                   | HScale \<Rightarrow>
                       Inr (True, s1, g1\<lparr>mode := SelScale, startWorld := Some w,
                                         selStartVec := Some (fst w - fst c, snd w - snd c)\<rparr>)
                   | HRotate \<Rightarrow>
                       Inr (True, s1, g1\<lparr>mode := SelRotate, startWorld := Some w,
                                         selStartAngle := atan2 (snd w - snd c) (fst w - fst c)\<rparr>)))"

definition beginBgTransform :: "gmode \<Rightarrow> point \<Rightarrow> state \<times> gesture \<Rightarrow> bool \<times> state \<times> gesture" where
  "beginBgTransform m w sg =
     (case sg of (s, g) \<Rightarrow>
        if bg_src (bg s) = [] then (False, s, g)
        else let s1 = clearRedo (pushUndo s)
             in (True, s1, g\<lparr>bgStart := Some (bg s1), startWorld := Some w, mode := m\<rparr>))"

text \<open>
  \<^verbatim>\<open>beginToolTransformForSelectionOrBg(tool, w)\<close>, called with the tool \<^verbatim>\<open>bgMove\<close>,
  \<^verbatim>\<open>bgScale\<close> or \<^verbatim>\<open>bgRotate\<close>, given here by the gesture mode of the same name.
\<close>

definition beginToolTransformForSelectionOrBg ::
  "(real \<Rightarrow> string \<Rightarrow> real) \<Rightarrow> gmode \<Rightarrow> point \<Rightarrow> state \<times> gesture \<Rightarrow> error + (bool \<times> state \<times> gesture)" where
  "beginToolTransformForSelectionOrBg mt t w sg =
     (case sg of (s, g) \<Rightarrow>
        if selectionIndex s \<ge> 0 then
          (let s1 = clearRedo (pushUndo s); idx = selectionIndex s1 in
           if nat idx \<ge> length (objects s1) then Inl SyntaxError
           else let ob = objects s1 ! nat idx;
                    c = boundsCenter (objectBounds mt ob);
                    g1 = g\<lparr>selIndex := idx, selStartObj := Some (deepClone ob),
                           selAnchor := Some c, startWorld := Some w\<rparr>;
                    g2 = (if t = BgMove then g1\<lparr>mode := SelMove\<rparr> else g1);
                    g3 = (if t = BgScale
                          then g2\<lparr>mode := SelScale,
                                  selStartVec := Some (fst w - fst c, snd w - snd c)\<rparr>
                          else g2);
                    g4 = (if t = BgRotate
                          then g3\<lparr>mode := SelRotate,
                                  selStartAngle := atan2 (snd w - snd c) (fst w - fst c)\<rparr>
                          else g3)
                in Inr (True, s1, g4))
        else Inr (beginBgTransform t w sg))"

text \<open>
  \<^verbatim>\<open>state.objects[i] = v\<close>. The index is a copy of a valid \<^verbatim>\<open>selectionIndex\<close>, and
  the only shrinking of the list that leaves a gesture running (the Delete key) removes
  one element, so the index is at most the length; writing at the length appends.
\<close>

definition arraySet :: "obj list \<Rightarrow> nat \<Rightarrow> obj \<Rightarrow> obj list" where
  "arraySet xs i v = (if i < length xs then xs[i := v] else xs @ [v])"

text \<open>\<^verbatim>\<open>obj.rot || 0\<close>; strokes and erasers have no such field.\<close>

fun obj_rot :: "obj \<Rightarrow> real" where
  "obj_rot (Stroke col sz pts) = 0"
| "obj_rot (Erase sz pts) = 0"
| "obj_rot (Shape k col sz x1 y1 x2 y2 rot) = rot"
| "obj_rot (Text x y txt col fontSize rot) = rot"

text \<open>
  \<^verbatim>\<open>(kind === "rect" || kind === "circle" || kind === "text") && (obj.rot || 0)\<close>,
  as a truth value.
\<close>

fun hasOwnRot :: "obj \<Rightarrow> bool" where
  "hasOwnRot (Shape k col sz x1 y1 x2 y2 rot) = ((k = Rect \<or> k = Circle) \<and> rot \<noteq> 0)"
| "hasOwnRot (Text x y txt col fontSize rot) = (rot \<noteq> 0)"
| "hasOwnRot ob = False"

text \<open>
  The scale factors of a \<^verbatim>\<open>selScale\<close> move from the start vector \<open>v0\<close> and the current
  vector \<open>v1\<close> (both relative to the anchor); the same lines occur in both branches.
\<close>

definition gestureFactors :: "point \<Rightarrow> point \<Rightarrow> bool \<Rightarrow> real \<times> real" where
  "gestureFactors v0 v1 shift =
     (let fxRaw = (if \<bar>fst v0\<bar> < 0.001 then 1 else fst v1 / fst v0);
          fyRaw = (if \<bar>snd v0\<bar> < 0.001 then 1 else snd v1 / snd v0)
      in if shift then
           (let l0 = orElse (hypot (fst v0) (snd v0)) 1;
                l1 = orElse (hypot (fst v1) (snd v1)) 1;
                f = l1 / l0
            in (f, f))
         else (fxRaw, fyRaw))"

text \<open>
  The object that a \<^verbatim>\<open>selScale\<close> move writes to \<^verbatim>\<open>state.objects[gesture.selIndex]\<close>,
  from the snapshot \<open>obj0\<close>, the anchor, the start point, the current point \<open>w\<close> and
  the shift key.
\<close>

definition selScaleObj ::
  "(real \<Rightarrow> string \<Rightarrow> real) \<Rightarrow> obj \<Rightarrow> point \<Rightarrow> point \<Rightarrow> point \<Rightarrow> bool \<Rightarrow> obj" where
  "selScaleObj mt obj0 anchor start w shift =
     (let ax = fst anchor; ay = snd anchor in
      if hasOwnRot obj0 then
        (let ang = obj_rot obj0;
             c = cos (- ang); sn = sin (- ang);
             v0x = (fst start - ax) * c - (snd start - ay) * sn;
             v0y = (fst start - ax) * sn + (snd start - ay) * c;
             v1x = (fst w - ax) * c - (snd w - ay) * sn;
             v1y = (fst w - ax) * sn + (snd w - ay) * c;
             ff = gestureFactors (v0x, v0y) (v1x, v1y) shift;
             fx = fst ff; fy = snd ff
         in (case deepClone obj0 of
               Text x y txt col fontSize rot \<Rightarrow>
                 (let uni = max 0.2 ((\<bar>fx\<bar> + \<bar>fy\<bar>) / 2);
                      m0 = textMetrics mt fontSize txt
                  in Text (ax - fst m0 / 2) (ay - fst (snd m0) / 2) txt col
                       (max 6 (fontSize * uni)) rot)
             | Shape k col sz x1 y1 x2 y2 rot \<Rightarrow>
                 (if k = Rect \<or> k = Circle then
                    (let w0 = \<bar>x2 - x1\<bar>; h0 = \<bar>y2 - y1\<bar>;
                         w1 = max 1 (w0 * fx); h1 = max 1 (h0 * fy)
                     in Shape k col sz (ax - w1 / 2) (ay - h1 / 2) (ax + w1 / 2) (ay + h1 / 2) rot)
                  else Shape k col sz x1 y1 x2 y2 rot)
             | ob \<Rightarrow> ob))
      else
        (let ff = gestureFactors (fst start - ax, snd start - ay) (fst w - ax, snd w - ay) shift
         in scaleObjectXY (deepClone obj0) (fst ff) (snd ff) ax ay))"

text \<open>\<^verbatim>\<open>Math.round(v)\<close>: the nearest integer, halves upwards.\<close>

definition jsRound :: "real \<Rightarrow> real" where
  "jsRound v = of_int \<lfloor>v + 1 / 2\<rfloor>"

definition selRotateObj ::
  "(real \<Rightarrow> string \<Rightarrow> real) \<Rightarrow> obj \<Rightarrow> point \<Rightarrow> real \<Rightarrow> point \<Rightarrow> bool \<Rightarrow> obj" where
  "selRotateObj mt obj0 anchor a0 w shift =
     (let a1 = atan2 (snd w - snd anchor) (fst w - fst anchor);
          delta = a1 - a0;
          step = 15 * pi / 180;
          delta' = (if shift then jsRound (delta / step) * step else delta)
      in rotateObject mt (deepClone obj0) delta')"

text \<open>The three background branches of \<^verbatim>\<open>onPointerMove\<close>: the new \<^verbatim>\<open>state.bg\<close>.\<close>

definition bgMoveTo :: "bg_state \<Rightarrow> point \<Rightarrow> point \<Rightarrow> bg_state" where
  "bgMoveTo bg0 start w =
     bg0\<lparr>bg_x := bg_x bg0 + (fst w - fst start), bg_y := bg_y bg0 + (snd w - snd start)\<rparr>"

definition bgScaleFactor :: "bg_state \<Rightarrow> point \<Rightarrow> point \<Rightarrow> real" where
  "bgScaleFactor bg0 start w =
     (let cx0 = bg_x bg0 + bg_natW bg0 / 2; cy0 = bg_y bg0 + bg_natH bg0 / 2;
          l0 = orElse (hypot (fst start - cx0) (snd start - cy0)) 1;
          l1 = orElse (hypot (fst w - cx0) (snd w - cy0)) 1
      in l1 / l0)"

definition bgScaleTo :: "bg_state \<Rightarrow> point \<Rightarrow> point \<Rightarrow> bg_state" where
  "bgScaleTo bg0 start w =
     (let cx0 = bg_x bg0 + bg_natW bg0 / 2; cy0 = bg_y bg0 + bg_natH bg0 / 2;
          factor = bgScaleFactor bg0 start w;
          newScale = clamp (bg_scale bg0 * factor) 0.05 10
      in bg0\<lparr>bg_scale := newScale, bg_x := cx0 - bg_natW bg0 / 2, bg_y := cy0 - bg_natH bg0 / 2\<rparr>)"

definition bgRotateTo :: "bg_state \<Rightarrow> point \<Rightarrow> point \<Rightarrow> bg_state" where
  "bgRotateTo bg0 start w =
     (let cx0 = bg_x bg0 + bg_natW bg0 / 2; cy0 = bg_y bg0 + bg_natH bg0 / 2;
          a0 = atan2 (snd start - cy0) (fst start - cx0);
          a1 = atan2 (snd w - cy0) (fst w - cx0)
      in bg0\<lparr>bg_rot := bg_rot bg0 + (a1 - a0)\<rparr>)"

text \<open>The \<^verbatim>\<open>drawShape\<close> branch: the active object after the move to \<open>w\<close>.\<close>

fun drawShapeObj :: "obj \<Rightarrow> point \<Rightarrow> bool \<Rightarrow> obj" where
  "drawShapeObj (Shape k col sz x1 y1 x2 y2 rot) w snapHeld =
     (let p = (if snapHeld \<and> (k = Line \<or> k = Arrow)
               then snapEndpointToAngles x1 y1 (fst w) (snd w) else w)
      in Shape k col sz x1 y1 (fst p) (snd p) rot)"
| "drawShapeObj ob w snapHeld = ob"

text \<open>The \<^verbatim>\<open>drawStroke\<close>/\<^verbatim>\<open>drawErase\<close> branch: \<^verbatim>\<open>activeObj.points.push(w)\<close>.\<close>

fun pushPoint :: "obj \<Rightarrow> point \<Rightarrow> obj" where
  "pushPoint (Stroke col sz pts) w = Stroke col sz (pts @ [w])"
| "pushPoint (Erase sz pts) w = Erase sz (pts @ [w])"
| "pushPoint ob w = ob"

definition updateActive :: "(obj \<Rightarrow> obj) \<Rightarrow> nat \<Rightarrow> obj list \<Rightarrow> obj list" where
  "updateActive f i xs = (if i < length xs then xs[i := f (xs ! i)] else xs)"

definition onPointerMove ::
  "(real \<Rightarrow> string \<Rightarrow> real) \<Rightarrow> pevent \<Rightarrow> state \<times> gesture \<Rightarrow> state \<times> gesture" where
  "onPointerMove mt e sg =
     (case sg of (s, g) \<Rightarrow>
        if \<not> active g then (s, g)
        else
          let sx = ev_sx e; sy = ev_sy e; w = screenToWorld s sx sy in
          if mode g = Pan \<and> lastScreen g \<noteq> None then
            (let l = the (lastScreen g)
             in (s\<lparr>panX := panX s + (sx - fst l), panY := panY s + (sy - snd l)\<rparr>,
                 g\<lparr>lastScreen := Some (sx, sy)\<rparr>))
          else if mode g = SelMove \<and> selIndex g \<ge> 0 \<and> selStartObj g \<noteq> None
                  \<and> startWorld g \<noteq> None then
            (let st = the (startWorld g);
                 ob = moveObject (deepClone (the (selStartObj g))) (fst w - fst st) (snd w - snd st)
             in (s\<lparr>objects := arraySet (objects s) (nat (selIndex g)) ob\<rparr>, g))
          else if mode g = SelScale \<and> selIndex g \<ge> 0 \<and> selStartObj g \<noteq> None
                  \<and> selAnchor g \<noteq> None \<and> startWorld g \<noteq> None then
            (let ob = selScaleObj mt (the (selStartObj g)) (the (selAnchor g))
                        (the (startWorld g)) w (shiftKey e)
             in (s\<lparr>objects := arraySet (objects s) (nat (selIndex g)) ob\<rparr>, g))
          else if mode g = SelRotate \<and> selIndex g \<ge> 0 \<and> selStartObj g \<noteq> None
                  \<and> selAnchor g \<noteq> None then
            (let ob = selRotateObj mt (the (selStartObj g)) (the (selAnchor g))
                        (selStartAngle g) w (shiftKey e)
             in (s\<lparr>objects := arraySet (objects s) (nat (selIndex g)) ob\<rparr>, g))
          else if (mode g = BgMove \<or> mode g = BgScale \<or> mode g = BgRotate)
                  \<and> bgStart g \<noteq> None \<and> startWorld g \<noteq> None then
            (let bg0 = the (bgStart g); st = the (startWorld g)
             in if mode g = BgMove then (s\<lparr>bg := bgMoveTo bg0 st w\<rparr>, g)
                else if mode g = BgScale then (s\<lparr>bg := bgScaleTo bg0 st w\<rparr>, g)
                else (s\<lparr>bg := bgRotateTo bg0 st w\<rparr>, g))
          else if (mode g = DrawStroke \<or> mode g = DrawErase) \<and> activeObj g \<noteq> None then
            (s\<lparr>objects := updateActive (\<lambda>ob. pushPoint ob w) (the (activeObj g)) (objects s)\<rparr>, g)
          else if mode g = DrawShape \<and> activeObj g \<noteq> None then
            (s\<lparr>objects := updateActive (\<lambda>ob. drawShapeObj ob w (ctrlKey e \<or> metaKey e))
                             (the (activeObj g)) (objects s)\<rparr>, g)
          else (s, g))"

subsection \<open>Vector export: the object loop\<close>

text \<open>
  Number formatting is JavaScript's own and is a parameter of the model:
  \<open>toFixed fm d v\<close> is \<^verbatim>\<open>v.toFixed(d)\<close> and \<open>numStr fm v\<close> is the text that a
  template literal \<^verbatim>\<open>${v}\<close> produces for a number.
\<close>

record fmt =
  toFixed :: "nat \<Rightarrow> real \<Rightarrow> string"
  numStr :: "real \<Rightarrow> string"

text \<open>The double quote character of the markup templates.\<close>

definition dq :: string where
  "dq = [CHR 0x22]"

text \<open>Decimal digits of a counter, as the template \<^verbatim>\<open>`m${maskCount}`\<close> prints it.\<close>

fun natStr :: "nat \<Rightarrow> string" where
  "natStr n =
     (if n < 10 then [''0123456789'' ! n]
      else natStr (n div 10) @ [''0123456789'' ! (n mod 10)])"

text \<open>\<^verbatim>\<open>s.replace(/c/g, r)\<close> for a single character \<open>c\<close>.\<close>

definition replaceAll :: "char \<Rightarrow> string \<Rightarrow> string \<Rightarrow> string" where
  "replaceAll c r str = concat (map (\<lambda>x. if x = c then r else [x]) str)"

definition svgEscape :: "string \<Rightarrow> string" where
  "svgEscape str =
     replaceAll (CHR 0x27) ''&#39;''
       (replaceAll (CHR 0x22) ''&quot;''
         (replaceAll (CHR ''>'') ''&gt;''
           (replaceAll (CHR ''<'') ''&lt;''
             (replaceAll (CHR ''&'') ''&amp;'' str))))"

definition pathFromPoints :: "fmt \<Rightarrow> point list \<Rightarrow> string" where
  "pathFromPoints fm pts =
     (if length pts < 2 then []
      else ''M '' @ toFixed fm 2 (fst (hd pts)) @ '' '' @ toFixed fm 2 (snd (hd pts))
           @ concat (map (\<lambda>p. '' L '' @ toFixed fm 2 (fst p) @ '' '' @ toFixed fm 2 (snd p))
                       (tl pts)))"

text \<open>The variables \<^verbatim>\<open>defs\<close>, \<^verbatim>\<open>pastLayer\<close>, \<^verbatim>\<open>currentLayer\<close>, \<^verbatim>\<open>maskCount\<close> of \<^verbatim>\<open>exportSVG\<close>.\<close>

record exp_state =
  defs :: string
  pastLayer :: string
  currentLayer :: string
  maskCount :: nat

definition exp_init :: exp_state where
  "exp_init = \<lparr>defs = [], pastLayer = [], currentLayer = [], maskCount = 0\<rparr>"

text \<open>The text appended to \<^verbatim>\<open>defs\<close> by \<^verbatim>\<open>wrapWithEraseMask\<close> for mask number \<open>n\<close>.\<close>

definition maskDef :: "fmt \<Rightarrow> nat \<Rightarrow> string \<Rightarrow> real \<Rightarrow> string" where
  "maskDef fm n erasePathD strokeW =
     ''\<newline>      <mask id='' @ dq @ ''m'' @ natStr n @ dq @ '' maskUnits='' @ dq
       @ ''userSpaceOnUse'' @ dq @ ''>''
     @ ''\<newline>        <rect x='' @ dq @ ''-100000'' @ dq @ '' y='' @ dq @ ''-100000'' @ dq
       @ '' width='' @ dq @ ''200000'' @ dq @ '' height='' @ dq @ ''200000'' @ dq
       @ '' fill='' @ dq @ ''white'' @ dq @ ''/>''
     @ ''\<newline>        <path d='' @ dq @ erasePathD @ dq @ '' fill='' @ dq @ ''none'' @ dq
       @ '' stroke='' @ dq @ ''black'' @ dq @ '' stroke-linecap='' @ dq @ ''round'' @ dq
       @ '' stroke-linejoin='' @ dq @ ''round'' @ dq
       @ '' stroke-width='' @ dq @ numStr fm strokeW @ dq @ ''/>''
     @ ''\<newline>      </mask>''"

text \<open>The opening tag \<^verbatim>\<open><g mask="url(#m...)">\<close> of the group for mask number \<open>n\<close>.\<close>

definition maskOpen :: "nat \<Rightarrow> string" where
  "maskOpen n = ''<g mask='' @ dq @ ''url(#m'' @ natStr n @ '')'' @ dq @ ''>''"

definition wrapWithEraseMask :: "fmt \<Rightarrow> string \<Rightarrow> real \<Rightarrow> exp_state \<Rightarrow> exp_state" where
  "wrapWithEraseMask fm erasePathD eraseSize st =
     (let n = maskCount st + 1;
          strokeW = max 1 (orElse eraseSize 20);
          combined = pastLayer st @ currentLayer st
      in \<lparr>defs = defs st @ maskDef fm n erasePathD strokeW,
          pastLayer = maskOpen n @ combined @ ''</g>'',
          currentLayer = [],
          maskCount = n\<rparr>)"

text \<open>
  What one object that is not an eraser appends to \<^verbatim>\<open>currentLayer\<close> (nothing for a
  stroke without a path).
\<close>

fun objMarkup :: "fmt \<Rightarrow> (real \<Rightarrow> string \<Rightarrow> real) \<Rightarrow> obj \<Rightarrow> string" where
  "objMarkup fm mt (Erase sz pts) = []"
| "objMarkup fm mt (Stroke col sz pts) =
     (let d = pathFromPoints fm pts
      in if d = [] then []
         else ''<path d='' @ dq @ d @ dq @ '' fill='' @ dq @ ''none'' @ dq
              @ '' stroke='' @ dq @ col @ dq @ '' stroke-linecap='' @ dq @ ''round'' @ dq
              @ '' stroke-linejoin='' @ dq @ ''round'' @ dq
              @ '' stroke-width='' @ dq @ numStr fm sz @ dq @ ''/>'')"
| "objMarkup fm mt (Text x y txt col fontSize rot) =
     (case textMetrics mt fontSize txt of (w, h, fs) \<Rightarrow>
        let cx = x + w / 2; cy = y + h / 2;
            ang = rot * 180 / pi;
            t = ''translate('' @ toFixed fm 3 cx @ '' '' @ toFixed fm 3 cy @ '') rotate(''
                @ toFixed fm 6 ang @ '') translate('' @ toFixed fm 3 (- w / 2) @ '' ''
                @ toFixed fm 3 (- h / 2) @ '')''
        in ''<text x='' @ dq @ ''0'' @ dq @ '' y='' @ dq @ ''0'' @ dq
           @ '' transform='' @ dq @ t @ dq @ '' fill='' @ dq @ col @ dq
           @ '' font-family='' @ dq
           @ ''system-ui, -apple-system, Segoe UI, Roboto, Arial, sans-serif'' @ dq
           @ '' font-weight='' @ dq @ ''700'' @ dq
           @ '' font-size='' @ dq @ numStr fm fs @ dq @ ''>'' @ svgEscape txt @ ''</text>'')"
| "objMarkup fm mt (Shape Line col sz x1 y1 x2 y2 rot) =
     ''<line x1='' @ dq @ numStr fm x1 @ dq @ '' y1='' @ dq @ numStr fm y1 @ dq
     @ '' x2='' @ dq @ numStr fm x2 @ dq @ '' y2='' @ dq @ numStr fm y2 @ dq
     @ '' stroke='' @ dq @ col @ dq @ '' stroke-width='' @ dq @ numStr fm sz @ dq
     @ '' stroke-linecap='' @ dq @ ''round'' @ dq @ '' />''"
| "objMarkup fm mt (Shape Arrow col sz x1 y1 x2 y2 rot) =
     (let ang = atan2 (y2 - y1) (x2 - x1);
          headLen = max 10 (sz * 3);
          a1 = ang + pi * 0.85;
          a2 = ang - pi * 0.85;
          hx1 = x2 + cos a1 * headLen; hy1 = y2 + sin a1 * headLen;
          hx2 = x2 + cos a2 * headLen; hy2 = y2 + sin a2 * headLen
      in ''<path d='' @ dq @ ''M '' @ numStr fm x1 @ '' '' @ numStr fm y1
         @ '' L '' @ numStr fm x2 @ '' '' @ numStr fm y2
         @ '' M '' @ numStr fm x2 @ '' '' @ numStr fm y2
         @ '' L '' @ numStr fm hx1 @ '' '' @ numStr fm hy1
         @ '' M '' @ numStr fm x2 @ '' '' @ numStr fm y2
         @ '' L '' @ numStr fm hx2 @ '' '' @ numStr fm hy2 @ dq
         @ '' fill='' @ dq @ ''none'' @ dq @ '' stroke='' @ dq @ col @ dq
         @ '' stroke-width='' @ dq @ numStr fm sz @ dq
         @ '' stroke-linecap='' @ dq @ ''round'' @ dq
         @ '' stroke-linejoin='' @ dq @ ''round'' @ dq @ '' />'')"
| "objMarkup fm mt (Shape Rect col sz x1 y1 x2 y2 rot) =
     (let cx = (x1 + x2) / 2; cy = (y1 + y2) / 2;
          rw = \<bar>x2 - x1\<bar>; rh = \<bar>y2 - y1\<bar>;
          ang = rot * 180 / pi;
          t = ''translate('' @ numStr fm cx @ '' '' @ numStr fm cy @ '') rotate(''
              @ numStr fm ang @ '')''
      in ''<rect x='' @ dq @ numStr fm (- rw / 2) @ dq @ '' y='' @ dq @ numStr fm (- rh / 2) @ dq
         @ '' width='' @ dq @ numStr fm rw @ dq @ '' height='' @ dq @ numStr fm rh @ dq
         @ '' transform='' @ dq @ t @ dq @ '' fill='' @ dq @ ''none'' @ dq
         @ '' stroke='' @ dq @ col @ dq @ '' stroke-width='' @ dq @ numStr fm sz @ dq @ '' />'')"
| "objMarkup fm mt (Shape Circle col sz x1 y1 x2 y2 rot) =
     (let cx = (x1 + x2) / 2; cy = (y1 + y2) / 2;
          rx = \<bar>x2 - x1\<bar> / 2; ry = \<bar>y2 - y1\<bar> / 2;
          ang = rot * 180 / pi;
          t = ''translate('' @ numStr fm cx @ '' '' @ numStr fm cy @ '') rotate(''
              @ numStr fm ang @ '')''
      in ''<ellipse cx='' @ dq @ ''0'' @ dq @ '' cy='' @ dq @ ''0'' @ dq
         @ '' rx='' @ dq @ numStr fm rx @ dq @ '' ry='' @ dq @ numStr fm ry @ dq
         @ '' transform='' @ dq @ t @ dq @ '' fill='' @ dq @ ''none'' @ dq
         @ '' stroke='' @ dq @ col @ dq @ '' stroke-width='' @ dq @ numStr fm sz @ dq @ '' />'')"

text \<open>One round of \<^verbatim>\<open>for (const obj of state.objects)\<close> in \<^verbatim>\<open>exportSVG\<close>.\<close>

fun exportStep :: "fmt \<Rightarrow> (real \<Rightarrow> string \<Rightarrow> real) \<Rightarrow> exp_state \<Rightarrow> obj \<Rightarrow> exp_state" where
  "exportStep fm mt st (Erase sz pts) =
     (let d = pathFromPoints fm pts
      in if d \<noteq> [] then wrapWithEraseMask fm d sz st else st)"
| "exportStep fm mt st ob = st\<lparr>currentLayer := currentLayer st @ objMarkup fm mt ob\<rparr>"

definition exportLoop :: "fmt \<Rightarrow> (real \<Rightarrow> string \<Rightarrow> real) \<Rightarrow> exp_state \<Rightarrow> obj list \<Rightarrow> exp_state" where
  "exportLoop fm mt st objs = foldl (exportStep fm mt) st objs"

text \<open>\<^verbatim>\<open>const inkMarkup = pastLayer + currentLayer;\<close>\<close>

definition inkMarkup :: "exp_state \<Rightarrow> string" where
  "inkMarkup st = pastLayer st @ currentLayer st"

text \<open>
  The shape of the exported ink after a given point of the loop, for stating where later
  objects land: \<open>opensAfter n objs\<close> is the run of opening tags of the mask groups that
  the erasers in \<open>objs\<close> put in front of everything accumulated so far (numbered from
  \<open>n + 1\<close>, the last eraser outermost), and \<open>markupAfter fm mt cur objs\<close> is what follows
  the markup accumulated so far: the current run \<open>cur\<close> and the markup of \<open>objs\<close>, with
  the closing tag of each of those groups.
\<close>

fun opensAfter :: "fmt \<Rightarrow> nat \<Rightarrow> obj list \<Rightarrow> string" where
  "opensAfter fm n [] = []"
| "opensAfter fm n (Erase sz pts # objs) =
     (if pathFromPoints fm pts \<noteq> [] then opensAfter fm (n + 1) objs @ maskOpen (n + 1)
      else opensAfter fm n objs)"
| "opensAfter fm n (ob # objs) = opensAfter fm n objs"

fun markupAfter :: "fmt \<Rightarrow> (real \<Rightarrow> string \<Rightarrow> real) \<Rightarrow> string \<Rightarrow> obj list \<Rightarrow> string" where
  "markupAfter fm mt cur [] = cur"
| "markupAfter fm mt cur (Erase sz pts # objs) =
     (if pathFromPoints fm pts \<noteq> [] then cur @ ''</g>'' @ markupAfter fm mt [] objs
      else markupAfter fm mt cur objs)"
| "markupAfter fm mt cur (ob # objs) = markupAfter fm mt (cur @ objMarkup fm mt ob) objs"

subsection \<open>A concrete formatter and text measure for evaluating examples\<close>

text \<open>
  \<open>toFixedDec d v\<close> rounds \<open>\<bar>v\<bar>\<close> to \<open>d\<close> decimals, halves upwards, and prints sign,
  integer part and \<open>d\<close> decimals, as \<^verbatim>\<open>toFixed\<close> does below \<open>10\<^sup>2\<^sup>1\<close>;
  \<open>intStr v\<close> prints an integer-valued number as a template literal does.
  \<open>halfWidth\<close> measures every character as half the font size.
\<close>

definition padZeros :: "nat \<Rightarrow> string \<Rightarrow> string" where
  "padZeros d str = replicate (d - length str) (CHR ''0'') @ str"

definition toFixedDec :: "nat \<Rightarrow> real \<Rightarrow> string" where
  "toFixedDec d v =
     (let n = nat \<lfloor>\<bar>v\<bar> * 10 ^ d + 1 / 2\<rfloor>
      in (if v < 0 then ''-'' else []) @ natStr (n div 10 ^ d)
         @ (if d = 0 then [] else ''.'' @ padZeros d (natStr (n mod 10 ^ d))))"

definition intStr :: "real \<Rightarrow> string" where
  "intStr v = (if v < 0 then ''-'' else []) @ natStr (nat \<lfloor>\<bar>v\<bar>\<rfloor>)"

definition decFmt :: fmt where
  "decFmt = \<lparr>toFixed = toFixedDec, numStr = intStr\<rparr>"

definition halfWidth :: "real \<Rightarrow> string \<Rightarrow> real" where
  "halfWidth fs txt = fs * real (length txt) / 2"

subsection \<open>Initial values and discrete actions\<close>

text \<open>The literals \<^verbatim>\<open>const state = {...}\<close> and \<^verbatim>\<open>const gesture = {...}\<close>.\<close>

definition initialState :: state where
  "initialState =
     \<lparr>tool = ''pen'', color = ''#111111'', brush_size = 5,
      zoom = 1, panX = 0, panY = 0, title = [],
      svg = default_svg, bg = default_bg, objects = [],
      undo_stack = [], redo_stack = [], selectionIndex = -1\<rparr>"

definition initialGesture :: gesture where
  "initialGesture =
     \<lparr>active = False, mode = MNone, startWorld = None, startScreen = None,
      lastWorld = None, lastScreen = None, activeObj = None,
      selIndex = -1, selStartObj = None, selAnchor = None, selStartVec = None,
      selStartAngle = 0, bgStart = None\<rparr>"

text \<open>\<^verbatim>\<open>hardResetGesture()\<close> writes the initial values back.\<close>

definition hardResetGesture :: "gesture \<Rightarrow> gesture" where
  "hardResetGesture g = initialGesture"

text \<open>The click handler of \<^verbatim>\<open>clearBtn\<close>.\<close>

definition clearClick :: "state \<times> gesture \<Rightarrow> state \<times> gesture" where
  "clearClick sg =
     (case sg of (s, g) \<Rightarrow>
        let s1 = clearRedo (pushUndo s)
        in (s1\<lparr>objects := [], selectionIndex := -1, tool := ''pen''\<rparr>, hardResetGesture g))"

text \<open>
  The Delete/Backspace part of the \<^verbatim>\<open>keydown\<close> handler:
  \<^verbatim>\<open>state.objects.splice(state.selectionIndex, 1)\<close>.
\<close>

definition deleteKey :: "state \<Rightarrow> state" where
  "deleteKey s =
     (if selectionIndex s \<ge> 0 then
        (let s1 = clearRedo (pushUndo s); i = nat (selectionIndex s1)
         in s1\<lparr>objects := take i (objects s1) @ drop (Suc i) (objects s1),
                selectionIndex := -1\<rparr>)
      else s)"

subsection \<open>A sequence of pointer moves\<close>

text \<open>The \<^verbatim>\<open>pointermove\<close> listener called for each event of a list, in order.\<close>

definition pointerMoves ::
  "(real \<Rightarrow> string \<Rightarrow> real) \<Rightarrow> pevent list \<Rightarrow> state \<times> gesture \<Rightarrow> state \<times> gesture" where
  "pointerMoves mt evs sg = foldl (\<lambda>acc e. onPointerMove mt e acc) sg evs"

section \<open>Properties\<close>

subsection \<open>Rounding to double\<close>

lemma roundEven_of_int: "roundEven (of_int n) = n"
  by (simp add: roundEven_def)

lemma roundEven_near: "\<bar>of_int (roundEven y) - y\<bar> \<le> 1 / 2"
proof -
  have "of_int \<lfloor>y\<rfloor> \<le> y" "y < of_int \<lfloor>y\<rfloor> + 1" by linarith+
  then show ?thesis by (auto simp: roundEven_def Let_def)
qed

lemma floor_log2:
  assumes "2 powi e \<le> x" "x < 2 powi (e + 1)"
  shows "\<lfloor>log 2 x\<rfloor> = e"
proof -
  have x: "0 < x" using assms(1) zero_less_power_int [of "2 :: real" e] by linarith
  have "2 powr (of_int e) = (2 :: real) powi e" by (simp add: powr_real_of_int')
  moreover have "2 powr (of_int e + 1) = (2 :: real) powi (e + 1)"
    using powr_real_of_int' [of 2 "e + 1"] by simp
  ultimately show ?thesis using assms x floor_log_eq_powr_iff [of x 2 e] by simp
qed

lemma log2_bounds:
  assumes "0 < x"
  shows "2 powi \<lfloor>log 2 x\<rfloor> \<le> x \<and> x < 2 powi (\<lfloor>log 2 x\<rfloor> + 1)"
proof -
  have "2 powr (of_int \<lfloor>log 2 x\<rfloor>) \<le> x \<and> x < 2 powr (of_int \<lfloor>log 2 x\<rfloor> + 1)"
    using floor_log_eq_powr_iff [of x 2 "\<lfloor>log 2 x\<rfloor>"] assms by simp
  moreover have "2 powr (of_int \<lfloor>log 2 x\<rfloor>) = (2 :: real) powi \<lfloor>log 2 x\<rfloor>"
    by (simp add: powr_real_of_int')
  moreover have "2 powr (of_int \<lfloor>log 2 x\<rfloor> + 1) = (2 :: real) powi (\<lfloor>log 2 x\<rfloor> + 1)"
    using powr_real_of_int' [of 2 "\<lfloor>log 2 x\<rfloor> + 1"] by simp
  ultimately show ?thesis by simp
qed

lemma fl_eval:
  assumes "2 powi e \<le> \<bar>x\<bar>" "\<bar>x\<bar> < 2 powi (e + 1)"
  shows "fl x = of_int (roundEven (x / 2 powi (e - 52))) * 2 powi (e - 52)"
proof -
  have "0 < (2 :: real) powi e" by simp
  with assms(1) have "0 < \<bar>x\<bar>" by linarith
  then have "x \<noteq> 0" by simp
  then show ?thesis using floor_log2 [OF assms] by (simp add: fl_def Let_def)
qed

lemma fl_error: "\<bar>fl x - x\<bar> \<le> \<bar>x\<bar> / 2 ^ 53"
proof (cases "x = 0")
  case True
  then show ?thesis by (simp add: fl_def)
next
  case False
  let ?e = "\<lfloor>log 2 \<bar>x\<bar>\<rfloor>"
  let ?q = "(2 :: real) powi (?e - 52)"
  have q: "0 < ?q" by simp
  have lo: "2 powi ?e \<le> \<bar>x\<bar>" using log2_bounds [of "\<bar>x\<bar>"] False by simp
  have qe: "?q * 2 ^ 52 = 2 powi ?e"
    by (simp add: power_int_diff)
  have "fl x - x = (of_int (roundEven (x / ?q)) - x / ?q) * ?q"
    using False q by (simp add: fl_def Let_def algebra_simps)
  then have "\<bar>fl x - x\<bar> = \<bar>of_int (roundEven (x / ?q)) - x / ?q\<bar> * ?q"
    using q by (simp add: abs_mult)
  also have "\<dots> \<le> (1 / 2) * ?q"
    using roundEven_near [of "x / ?q"] q by (intro mult_right_mono) simp_all
  also have "\<dots> = 2 powi ?e / 2 ^ 53" using qe by (simp add: field_simps)
  also have "\<dots> \<le> \<bar>x\<bar> / 2 ^ 53" using lo by (simp add: divide_right_mono)
  finally show ?thesis .
qed

lemma fl_int:
  assumes "\<bar>n\<bar> < 2 ^ 53"
  shows "fl (of_int n) = of_int n"
proof (cases "n = 0")
  case True
  then show ?thesis by (simp add: fl_def)
next
  case False
  let ?x = "real_of_int n"
  let ?e = "\<lfloor>log 2 \<bar>?x\<bar>\<rfloor>"
  have pos: "0 < \<bar>?x\<bar>" using False by simp
  have "2 powi ?e \<le> \<bar>?x\<bar>" using log2_bounds [OF pos] by simp
  also have "\<bar>?x\<bar> < 2 ^ 53" using assms by (metis of_int_abs of_int_less_numeral_power_cancel_iff)
  finally have "(2 :: real) powi ?e < 2 powi 53" by simp
  then have e: "?e < 53" by (rule power_int_le_imp_less_exp [rotated]) simp_all
  define k where "k = nat (52 - ?e)"
  have k: "?e - 52 = - int k" using e by (simp add: k_def)
  have q: "(2 :: real) powi (?e - 52) = 1 / 2 ^ k" unfolding k by (simp add: power_int_minus_divide)
  have "?x / (1 / 2 ^ k) = of_int (n * 2 ^ k)" by simp
  then have "roundEven (?x / (1 / 2 ^ k)) = n * 2 ^ k" by (simp only: roundEven_of_int)
  then show ?thesis using False by (simp add: fl_def Let_def q)
qed

lemma fl_zero: "fl 0 = 0"
  by (simp add: fl_def)

lemma fl_numeral: "(numeral k :: int) < 2 ^ 53 \<Longrightarrow> fl (numeral k) = numeral k"
  using fl_int [of "numeral k"] by simp

lemma fl_one: "fl 1 = 1"
  using fl_int [of 1] by simp

lemma fl_half: "fl (1 / 2) = 1 / 2"
  using fl_eval [of "- 1" "1 / 2"] by (simp add: roundEven_def)

lemma roundEven_eqI:
  assumes "\<bar>y - of_int n\<bar> < 1 / 2"
  shows "roundEven y = n"
proof -
  have f: "of_int \<lfloor>y\<rfloor> \<le> y" "y < of_int \<lfloor>y\<rfloor> + 1" by linarith+
  have "\<lfloor>y\<rfloor> = n \<or> \<lfloor>y\<rfloor> = n - 1" using assms f by linarith
  then show ?thesis
  proof
    assume e: "\<lfloor>y\<rfloor> = n"
    then have "y - of_int n < 1 / 2" using assms by linarith
    then show ?thesis using e by (simp add: roundEven_def Let_def)
  next
    assume e: "\<lfloor>y\<rfloor> = n - 1"
    have "1 / 2 < y - (of_int n - 1)" using assms by linarith
    then have "1 / 2 < y - of_int (n - 1)" by simp
    then show ?thesis using e by (simp add: roundEven_def Let_def)
  qed
qed

lemma fl_sqrt:
  fixes S :: real
  assumes lo: "(2 powi e)\<^sup>2 \<le> S" and hi: "S < (2 powi (e + 1))\<^sup>2"
    and nlo: "((of_int n - 1 / 2) * 2 powi (e - 52))\<^sup>2 < S"
    and nhi: "S < ((of_int n + 1 / 2) * 2 powi (e - 52))\<^sup>2"
    and n: "1 \<le> n"
  shows "fl (sqrt S) = of_int n * 2 powi (e - 52)"
proof -
  let ?q = "(2 :: real) powi (e - 52)"
  have q: "0 < ?q" by simp
  have S: "0 \<le> S" using lo zero_le_power2 [of "(2 :: real) powi e"] by linarith
  have a: "2 powi e \<le> sqrt S" using lo by (intro real_le_rsqrt)
  have b: "sqrt S < 2 powi (e + 1)" using hi S by (intro real_less_lsqrt) simp_all
  have c: "(of_int n - 1 / 2) * ?q < sqrt S" using nlo by (intro real_less_rsqrt)
  have "0 \<le> (of_int n + 1 / 2) * ?q" using n by simp
  then have d: "sqrt S < (of_int n + 1 / 2) * ?q" using nhi S by (intro real_less_lsqrt) simp_all
  have "of_int n - 1 / 2 < sqrt S / ?q" using c q by (simp add: field_simps)
  moreover have "sqrt S / ?q < of_int n + 1 / 2" using d q by (simp add: field_simps)
  ultimately have "\<bar>sqrt S / ?q - of_int n\<bar> < 1 / 2" by linarith
  then have r: "roundEven (sqrt S / ?q) = n" by (rule roundEven_eqI)
  have "\<bar>sqrt S\<bar> = sqrt S" using S by simp
  then show ?thesis using fl_eval [of e "sqrt S"] a b r by simp
qed

text \<open>
  The rounding error of a product, a sum and a quotient of rounded values, and of the
  coordinate \<open>p - (x + t * d)\<close> as \<^verbatim>\<open>distToSeg\<close> computes it. The arithmetic on the
  error terms is linear and is done once for each in a lemma about plain real numbers.
\<close>

lemma fl_zero_iff: "fl x = 0 \<longleftrightarrow> x = 0"
proof
  assume "fl x = 0"
  then have "\<bar>x\<bar> \<le> \<bar>x\<bar> / 2 ^ 53" using fl_error [of x] by simp
  then show "x = 0" by simp
next
  assume "x = 0"
  then show "fl x = 0" by (simp add: fl_def)
qed

lemma clamp_lipschitz: "\<bar>clamp a 0 1 - clamp b 0 1\<bar> \<le> \<bar>a - b\<bar>"
  by (simp add: clamp_def max_def min_def)

lemma clamp_unit: "0 \<le> clamp a 0 1 \<and> clamp a 0 1 \<le> 1"
  by (simp add: clamp_def)

lemma lin_bound:
  fixes x y e :: real
  assumes "x \<le> y + e" "e \<le> y / 2 ^ 53"
  shows "x \<le> y + y / 2 ^ 53"
  using assms by linarith

lemma abs_bound:
  fixes a A :: real
  assumes "\<bar>a - A\<bar> \<le> \<bar>A\<bar> / 2 ^ 53"
  shows "\<bar>a\<bar> \<le> \<bar>A\<bar> + \<bar>A\<bar> / 2 ^ 53"
proof -
  have "\<bar>a\<bar> \<le> \<bar>A\<bar> + \<bar>a - A\<bar>" by linarith
  then show ?thesis using assms by (rule lin_bound)
qed

lemma lin_prod:
  fixes P X1 X2 E1 E2 E AD :: real
  assumes "X1 \<le> (NA / 2 ^ 53) * (ND + ND / 2 ^ 53)" "X2 \<le> NA * (ND / 2 ^ 53)"
    "E1 \<le> X1 + X2" "E2 \<le> AD / 2 ^ 53" "AD \<le> (NA + NA / 2 ^ 53) * (ND + ND / 2 ^ 53)"
    "E \<le> E2 + E1" "0 \<le> NA * ND"
  shows "E \<le> 4 * (NA * ND) / 2 ^ 53"
proof -
  define P where "P = NA * ND"
  have 1: "(NA / 2 ^ 53) * (ND + ND / 2 ^ 53) = P / 2 ^ 53 + P / 2 ^ 106"
    by (simp add: P_def algebra_simps)
  have 2: "NA * (ND / 2 ^ 53) = P / 2 ^ 53" by (simp add: P_def)
  have 3: "(NA + NA / 2 ^ 53) * (ND + ND / 2 ^ 53) = P + 2 * P / 2 ^ 53 + P / 2 ^ 106"
    by (simp add: P_def algebra_simps)
  have "E \<le> 4 * P / 2 ^ 53" using assms unfolding 1 2 3 P_def [symmetric] by simp
  then show ?thesis by (simp add: P_def)
qed

lemma fsub_err: "\<bar>fsub x y - (x - y)\<bar> \<le> \<bar>x - y\<bar> / 2 ^ 53"
  unfolding fsub_def by (rule fl_error)

lemma prod_err:
  assumes a: "\<bar>a - A\<bar> \<le> \<bar>A\<bar> / 2 ^ 53" and d: "\<bar>d - D\<bar> \<le> \<bar>D\<bar> / 2 ^ 53"
  shows "\<bar>fmul a d - A * D\<bar> \<le> 4 * \<bar>A * D\<bar> / 2 ^ 53"
proof -
  note a' = abs_bound [OF a] and d' = abs_bound [OF d]
  have "\<bar>a\<bar> * \<bar>d\<bar> \<le> (\<bar>A\<bar> + \<bar>A\<bar> / 2 ^ 53) * (\<bar>D\<bar> + \<bar>D\<bar> / 2 ^ 53)"
    using a' d' by (intro mult_mono) simp_all
  then have ad: "\<bar>a * d\<bar> \<le> (\<bar>A\<bar> + \<bar>A\<bar> / 2 ^ 53) * (\<bar>D\<bar> + \<bar>D\<bar> / 2 ^ 53)"
    by (simp only: abs_mult)
  have t1: "\<bar>a - A\<bar> * \<bar>d\<bar> \<le> (\<bar>A\<bar> / 2 ^ 53) * (\<bar>D\<bar> + \<bar>D\<bar> / 2 ^ 53)"
    using a d' by (intro mult_mono) simp_all
  have t2: "\<bar>A\<bar> * \<bar>d - D\<bar> \<le> \<bar>A\<bar> * (\<bar>D\<bar> / 2 ^ 53)"
    using d by (intro mult_left_mono) simp_all
  have "a * d - A * D = (a - A) * d + A * (d - D)" by (simp add: algebra_simps)
  then have e1: "\<bar>a * d - A * D\<bar> \<le> \<bar>a - A\<bar> * \<bar>d\<bar> + \<bar>A\<bar> * \<bar>d - D\<bar>"
    by (metis abs_mult abs_triangle_ineq)
  have e2: "\<bar>fl (a * d) - a * d\<bar> \<le> \<bar>a * d\<bar> / 2 ^ 53" by (rule fl_error)
  have e: "\<bar>fl (a * d) - A * D\<bar> \<le> \<bar>fl (a * d) - a * d\<bar> + \<bar>a * d - A * D\<bar>" by linarith
  have P: "0 \<le> \<bar>A\<bar> * \<bar>D\<bar>" by simp
  have "\<bar>fl (a * d) - A * D\<bar> \<le> 4 * (\<bar>A\<bar> * \<bar>D\<bar>) / 2 ^ 53"
    by (rule lin_prod [OF t1 t2 e1 e2 ad e P])
  then show ?thesis by (simp only: fmul_def abs_mult)
qed

lemma lin_sum:
  fixes E1 E2 NX1 NX2 F NS E :: real
  assumes "E1 \<le> 4 * NX1 / 2 ^ 53" "E2 \<le> 4 * NX2 / 2 ^ 53" "F \<le> NS / 2 ^ 53"
    "NS \<le> NX1 + NX2 + E1 + E2" "E \<le> F + E1 + E2" "0 \<le> NX1" "0 \<le> NX2"
  shows "E \<le> 6 * (NX1 + NX2) / 2 ^ 53"
  using assms by simp

lemma sum_err:
  assumes 1: "\<bar>n1 - X1\<bar> \<le> 4 * \<bar>X1\<bar> / 2 ^ 53" and 2: "\<bar>n2 - X2\<bar> \<le> 4 * \<bar>X2\<bar> / 2 ^ 53"
  shows "\<bar>fadd n1 n2 - (X1 + X2)\<bar> \<le> 6 * (\<bar>X1\<bar> + \<bar>X2\<bar>) / 2 ^ 53"
proof -
  have f: "\<bar>fl (n1 + n2) - (n1 + n2)\<bar> \<le> \<bar>n1 + n2\<bar> / 2 ^ 53" by (rule fl_error)
  have s: "\<bar>n1 + n2\<bar> \<le> \<bar>X1\<bar> + \<bar>X2\<bar> + \<bar>n1 - X1\<bar> + \<bar>n2 - X2\<bar>" by linarith
  have e: "\<bar>fl (n1 + n2) - (X1 + X2)\<bar> \<le> \<bar>fl (n1 + n2) - (n1 + n2)\<bar> + \<bar>n1 - X1\<bar> + \<bar>n2 - X2\<bar>"
    by linarith
  have "\<bar>fl (n1 + n2) - (X1 + X2)\<bar> \<le> 6 * (\<bar>X1\<bar> + \<bar>X2\<bar>) / 2 ^ 53"
    by (rule lin_sum [OF 1 2 f s e]) simp_all
  then show ?thesis by (simp only: fadd_def)
qed

lemma lin_lo:
  fixes D2 Dc e :: real
  assumes "D2 - Dc \<le> e" "e \<le> 6 * D2 / 2 ^ 53"
  shows "D2 - 6 * D2 / 2 ^ 53 \<le> Dc"
  using assms by linarith

lemma lin_quot1:
  fixes X1 X2 E S D2 SD :: real
  assumes "X1 \<le> (6 * S / 2 ^ 53) * D2" "X2 \<le> S * (6 * D2 / 2 ^ 53)" "E \<le> X1 + X2"
    "S * (D2 - 6 * D2 / 2 ^ 53) \<le> SD" "0 \<le> S * D2"
  shows "E \<le> 13 * SD / 2 ^ 53"
proof -
  define Q where "Q = S * D2"
  have 1: "(6 * S / 2 ^ 53) * D2 = 6 * Q / 2 ^ 53" by (simp add: Q_def)
  have 2: "S * (6 * D2 / 2 ^ 53) = 6 * Q / 2 ^ 53" by (simp add: Q_def)
  have 3: "S * (D2 - 6 * D2 / 2 ^ 53) = Q - 6 * Q / 2 ^ 53" by (simp add: Q_def algebra_simps)
  show ?thesis using assms unfolding 1 2 3 Q_def [symmetric] by simp
qed

lemma lin_quot2:
  fixes EQ R NQ NT F E :: real
  assumes "EQ \<le> 13 * R / 2 ^ 53" "NQ \<le> NT + EQ" "NT \<le> R" "F \<le> NQ / 2 ^ 53"
    "E \<le> F + EQ" "0 \<le> R"
  shows "E \<le> 16 * R / 2 ^ 53"
  using assms by simp

lemma quot_err:
  assumes N: "\<bar>Nc - N\<bar> \<le> 6 * S / 2 ^ 53" and NS: "\<bar>N\<bar> \<le> S"
    and D: "\<bar>Dc - D2\<bar> \<le> 6 * D2 / 2 ^ 53" and D2: "0 < D2"
  shows "\<bar>fdiv Nc Dc - N / D2\<bar> \<le> 16 * (S / D2) / 2 ^ 53"
proof -
  have S: "0 \<le> S" using NS by linarith
  have "D2 - Dc \<le> \<bar>Dc - D2\<bar>" by linarith
  then have Dlo: "D2 - 6 * D2 / 2 ^ 53 \<le> Dc" using D by (rule lin_lo)
  have "0 < D2 - 6 * D2 / 2 ^ 53" using D2 by simp
  with Dlo have Dc: "0 < Dc" by linarith
  have t1: "\<bar>Nc - N\<bar> * \<bar>D2\<bar> \<le> (6 * S / 2 ^ 53) * D2"
    using N D2 by (simp add: mult_right_mono)
  have D': "\<bar>D2 - Dc\<bar> \<le> 6 * D2 / 2 ^ 53" using D by (simp only: abs_minus_commute [of D2 Dc])
  have t2: "\<bar>N\<bar> * \<bar>D2 - Dc\<bar> \<le> S * (6 * D2 / 2 ^ 53)"
    by (rule mult_mono [OF NS D' S]) simp
  have "Nc * D2 - N * Dc = (Nc - N) * D2 + N * (D2 - Dc)" by (simp add: algebra_simps)
  then have tri: "\<bar>Nc * D2 - N * Dc\<bar> \<le> \<bar>Nc - N\<bar> * \<bar>D2\<bar> + \<bar>N\<bar> * \<bar>D2 - Dc\<bar>"
    by (metis abs_mult abs_triangle_ineq)
  have lo: "S * (D2 - 6 * D2 / 2 ^ 53) \<le> S * Dc" using Dlo S by (rule mult_left_mono)
  have Q: "0 \<le> S * D2" using S D2 by simp
  have n: "\<bar>Nc * D2 - N * Dc\<bar> \<le> 13 * (S * Dc) / 2 ^ 53"
    by (rule lin_quot1 [OF t1 t2 tri lo Q])
  have "Nc / Dc - N / D2 = (Nc * D2 - N * Dc) / (Dc * D2)"
    using Dc D2 by (simp add: field_simps)
  then have "\<bar>Nc / Dc - N / D2\<bar> = \<bar>Nc * D2 - N * Dc\<bar> / (Dc * D2)"
    using Dc D2 by (simp add: abs_mult)
  also have "\<dots> \<le> (13 * (S * Dc) / 2 ^ 53) / (Dc * D2)"
    by (rule divide_right_mono [OF n]) (use Dc D2 in simp)
  also have "\<dots> = 13 * (S / D2) / 2 ^ 53" using Dc D2 by simp
  finally have q: "\<bar>Nc / Dc - N / D2\<bar> \<le> 13 * (S / D2) / 2 ^ 53" .
  have "\<bar>N / D2\<bar> = \<bar>N\<bar> / D2" using D2 by simp
  also have "\<dots> \<le> S / D2" using NS D2 by (simp add: divide_right_mono)
  finally have nt: "\<bar>N / D2\<bar> \<le> S / D2" .
  have qa: "\<bar>Nc / Dc\<bar> \<le> \<bar>N / D2\<bar> + \<bar>Nc / Dc - N / D2\<bar>" by linarith
  have f: "\<bar>fl (Nc / Dc) - Nc / Dc\<bar> \<le> \<bar>Nc / Dc\<bar> / 2 ^ 53" by (rule fl_error)
  have e: "\<bar>fl (Nc / Dc) - N / D2\<bar> \<le> \<bar>fl (Nc / Dc) - Nc / Dc\<bar> + \<bar>Nc / Dc - N / D2\<bar>"
    by linarith
  have R: "0 \<le> S / D2" using S D2 by simp
  have "\<bar>fl (Nc / Dc) - N / D2\<bar> \<le> 16 * (S / D2) / 2 ^ 53"
    by (rule lin_quot2 [OF q qa nt f e R])
  then show ?thesis by (simp only: fdiv_def)
qed

lemma lin_coord:
  fixes NP NX ND :: real
  assumes "Nd \<le> ND + ND / 2 ^ 53" "Ntd \<le> Nd" "EtdD \<le> Ed" "Ed \<le> ND / 2 ^ 53" "NtD \<le> ND"
    "Em0 \<le> Ntd / 2 ^ 53" "Em \<le> Em0 + EtdD" "Nm \<le> NtD + Em" "Nxm \<le> NX + Nm"
    "Ec0 \<le> Nxm / 2 ^ 53" "Ec \<le> Ec0 + Em" "Nc \<le> NX + NtD + Ec" "Npc \<le> NP + Nc"
    "Ef \<le> Npc / 2 ^ 53" "E \<le> Ef + Ec" "0 \<le> NP" "0 \<le> NX" "0 \<le> ND"
  shows "E \<le> (NP + 3 * NX + 7 * ND) / 2 ^ 53"
  using assms by simp

lemma coord_err:
  assumes t: "0 \<le> t" "t \<le> 1" and d: "\<bar>d - D\<bar> \<le> \<bar>D\<bar> / 2 ^ 53"
  shows "\<bar>fsub p (fadd x (fmul t d)) - (p - (x + t * D))\<bar> \<le> (\<bar>p\<bar> + 3 * \<bar>x\<bar> + 7 * \<bar>D\<bar>) / 2 ^ 53"
proof -
  define m where "m = fl (t * d)"
  define c where "c = fl (x + m)"
  note d' = abs_bound [OF d]
  have "\<bar>t * d\<bar> = t * \<bar>d\<bar>" using t by (simp add: abs_mult)
  also have "\<dots> \<le> 1 * \<bar>d\<bar>" using t by (intro mult_right_mono) simp_all
  finally have td: "\<bar>t * d\<bar> \<le> \<bar>d\<bar>" by simp
  have "t * d - t * D = t * (d - D)" by (simp add: algebra_simps)
  then have "\<bar>t * d - t * D\<bar> = t * \<bar>d - D\<bar>" using t by (simp add: abs_mult)
  also have "\<dots> \<le> 1 * \<bar>d - D\<bar>" using t by (intro mult_right_mono) simp_all
  finally have tdD: "\<bar>t * d - t * D\<bar> \<le> \<bar>d - D\<bar>" by simp
  have "\<bar>t * D\<bar> = t * \<bar>D\<bar>" using t by (simp add: abs_mult)
  also have "\<dots> \<le> 1 * \<bar>D\<bar>" using t by (intro mult_right_mono) simp_all
  finally have tD: "\<bar>t * D\<bar> \<le> \<bar>D\<bar>" by simp
  have e1: "\<bar>m - t * d\<bar> \<le> \<bar>t * d\<bar> / 2 ^ 53" unfolding m_def by (rule fl_error)
  have e2: "\<bar>c - (x + m)\<bar> \<le> \<bar>x + m\<bar> / 2 ^ 53" unfolding c_def by (rule fl_error)
  have e3: "\<bar>fl (p - c) - (p - c)\<bar> \<le> \<bar>p - c\<bar> / 2 ^ 53" by (rule fl_error)
  have m1: "\<bar>m - t * D\<bar> \<le> \<bar>m - t * d\<bar> + \<bar>t * d - t * D\<bar>" by linarith
  have m2: "\<bar>m\<bar> \<le> \<bar>t * D\<bar> + \<bar>m - t * D\<bar>" by linarith
  have c1: "\<bar>x + m\<bar> \<le> \<bar>x\<bar> + \<bar>m\<bar>" by linarith
  have c2: "\<bar>c - (x + t * D)\<bar> \<le> \<bar>c - (x + m)\<bar> + \<bar>m - t * D\<bar>" by linarith
  have c3: "\<bar>c\<bar> \<le> \<bar>x\<bar> + \<bar>t * D\<bar> + \<bar>c - (x + t * D)\<bar>" by linarith
  have p1: "\<bar>p - c\<bar> \<le> \<bar>p\<bar> + \<bar>c\<bar>" by linarith
  have p2: "\<bar>fl (p - c) - (p - (x + t * D))\<bar> \<le> \<bar>fl (p - c) - (p - c)\<bar> + \<bar>c - (x + t * D)\<bar>"
    by linarith
  have "\<bar>fl (p - c) - (p - (x + t * D))\<bar> \<le> (\<bar>p\<bar> + 3 * \<bar>x\<bar> + 7 * \<bar>D\<bar>) / 2 ^ 53"
    by (rule lin_coord [OF d' td tdD d tD e1 m1 m2 c1 e2 c2 c3 p1 e3 p2]) simp_all
  then show ?thesis by (simp only: fsub_def fadd_def fmul_def c_def m_def)
qed

subsection \<open>Camera\<close>

text \<open>
  The camera with zoom 3 and horizontal pan 1, zoomed to 2 about the screen point
  \<open>(2, 0)\<close>, step by step in double arithmetic. The world coordinate under the anchor
  is \<open>fl (1 / 3)\<close> before the call. The new pan is \<open>2 - fl (2 * fl (1 / 3))\<close>,
  rounded, and dividing what is left of the anchor by the new zoom gives the double just
  below \<open>fl (1 / 3)\<close>.
\<close>

lemma fl_third: "fl (1 / 3) = 6004799503160661 / 2 ^ 54"
  using fl_eval [of "- 2" "1 / 3"] by (simp add: roundEven_def)

lemma zc_w: "fdiv (fsub 2 1) 3 = 6004799503160661 / 2 ^ 54"
  using fl_int [of 1] by (simp add: fdiv_def fsub_def fl_third)

lemma zc_a: "fmul (6004799503160661 / 2 ^ 54) 2 = 6004799503160661 / 2 ^ 53"
  using fl_eval [of "- 1" "6004799503160661 / 2 ^ 53"] by (simp add: fmul_def roundEven_def)

lemma zc_p: "fsub 2 (6004799503160661 / 2 ^ 53) = 6004799503160662 / 2 ^ 52"
  using fl_eval [of 0 "2 - 6004799503160661 / 2 ^ 53"] by (simp add: fsub_def roundEven_def)

lemma zc_c: "fsub 2 (6004799503160662 / 2 ^ 52) = 6004799503160660 / 2 ^ 53"
  using fl_eval [of "- 1" "2 - 6004799503160662 / 2 ^ 52"] by (simp add: fsub_def roundEven_def)

lemma zc_w': "fdiv (6004799503160660 / 2 ^ 53) 2 = 6004799503160660 / 2 ^ 54"
  using fl_eval [of "- 2" "6004799503160660 / 2 ^ 54"] by (simp add: fdiv_def roundEven_def)

lemma zn_w: "fdiv (fsub 2 1) 3 = 6004799503160661 / 2 ^ 54"
  by (rule zc_w)

lemma zn_a: "fmul (fdiv (fsub 2 1) 3) 2 = 6004799503160661 / 2 ^ 53"
  by (simp only: zn_w zc_a)

lemma zn_p: "fsub 2 (fmul (fdiv (fsub 2 1) 3) 2) = 6004799503160662 / 2 ^ 52"
  by (simp only: zn_a zc_p)

lemma zn_c: "fsub 2 (fsub 2 (fmul (fdiv (fsub 2 1) 3) 2)) = 6004799503160660 / 2 ^ 53"
  by (simp only: zn_p zc_c)

lemma zn_w': "fdiv (fsub 2 (fsub 2 (fmul (fdiv (fsub 2 1) 3) 2))) 2 = 6004799503160660 / 2 ^ 54"
  by (simp only: zn_c zc_w')

lemma zoom_sx: "fst (screenToWorld_dbl (initialState\<lparr>zoom := 3, panX := 1\<rparr>) 2 0)
                  = 6004799503160661 / 2 ^ 54"
  by (simp add: screenToWorld_dbl_def initialState_def zn_w)

lemma zoom_sx': "fst (screenToWorld_dbl (setZoomTo 2 2 0 (initialState\<lparr>zoom := 3, panX := 1\<rparr>)) 2 0)
                  = 6004799503160660 / 2 ^ 54"
  by (simp add: screenToWorld_dbl_def setZoomTo_def Let_def clamp_def initialState_def zn_w')

text \<open>
  Claim C2 as stated fails: in double arithmetic the world point under the anchor is not
  always the same after the call. With zoom 3, pan \<open>(1, 0)\<close>, target zoom 2 and the
  anchor \<open>(2, 0)\<close>, \<^verbatim>\<open>screenToWorld\<close> gives \<open>x = 0.3333333333333333\<close> before
  and \<open>x = 0.33333333333333326\<close> after the call: one unit in the last place less.
\<close>

theorem zoom_anchor_counterexample:
  "fst (screenToWorld_dbl (initialState\<lparr>zoom := 3, panX := 1\<rparr>) 2 0)
     = 6004799503160661 / 2 ^ 54
   \<and> fst (screenToWorld_dbl (setZoomTo 2 2 0 (initialState\<lparr>zoom := 3, panX := 1\<rparr>)) 2 0)
     = 6004799503160660 / 2 ^ 54
   \<and> screenToWorld_dbl (setZoomTo 2 2 0 (initialState\<lparr>zoom := 3, panX := 1\<rparr>)) 2 0
     \<noteq> screenToWorld_dbl (initialState\<lparr>zoom := 3, panX := 1\<rparr>) 2 0"
proof -
  have "fst (screenToWorld_dbl (setZoomTo 2 2 0 (initialState\<lparr>zoom := 3, panX := 1\<rparr>)) 2 0)
          \<noteq> fst (screenToWorld_dbl (initialState\<lparr>zoom := 3, panX := 1\<rparr>) 2 0)"
    by (simp only: zoom_sx zoom_sx') simp
  then have "screenToWorld_dbl (setZoomTo 2 2 0 (initialState\<lparr>zoom := 3, panX := 1\<rparr>)) 2 0
     \<noteq> screenToWorld_dbl (initialState\<lparr>zoom := 3, panX := 1\<rparr>) 2 0"
    by metis
  with zoom_sx zoom_sx' show ?thesis by blast
qed

text \<open>
  The rounding errors of the four operations between the world coordinate \<open>W\<close> before
  the call and the world coordinate after it: the product \<open>W * z\<close>, the new pan, the
  difference of the anchor and the new pan, and the quotient by the new zoom \<open>z\<close>.
\<close>

lemma rounding_chain:
  fixes A M S D1 D2 CA E C V :: real
  assumes "A \<le> M + M / 2 ^ 53" "D1 \<le> S + A" "D2 \<le> A + D1 / 2 ^ 53"
    "CA \<le> D2 / 2 ^ 53 + D1 / 2 ^ 53" "E \<le> CA + M / 2 ^ 53" "C \<le> M + E"
    "V \<le> C / 2 ^ 53 + E" "0 \<le> M" "0 \<le> S"
  shows "V \<le> (M + S) / 2 ^ 50"
  using assms by simp

lemma anchor_error:
  fixes W z sx :: real
  assumes z: "0 < z"
  shows "\<bar>fdiv (fsub sx (fsub sx (fmul W z))) z - W\<bar> \<le> (\<bar>W\<bar> + \<bar>sx\<bar> / z) / 2 ^ 50"
proof -
  define m where "m = W * z"
  define a where "a = fl m"
  define p where "p = fl (sx - a)"
  define c where "c = fl (sx - p)"
  define w' where "w' = fl (c / z)"
  have e1: "\<bar>a - m\<bar> \<le> \<bar>m\<bar> / 2 ^ 53" unfolding a_def by (rule fl_error)
  have e2: "\<bar>p - (sx - a)\<bar> \<le> \<bar>sx - a\<bar> / 2 ^ 53" unfolding p_def by (rule fl_error)
  have e3: "\<bar>c - (sx - p)\<bar> \<le> \<bar>sx - p\<bar> / 2 ^ 53" unfolding c_def by (rule fl_error)
  have e4: "\<bar>w' - c / z\<bar> \<le> \<bar>c / z\<bar> / 2 ^ 53" unfolding w'_def by (rule fl_error)
  have "w' * z - c = (w' - c / z) * z" using z by (simp add: field_simps)
  then have "\<bar>w' * z - c\<bar> = \<bar>w' - c / z\<bar> * z"
    using z by (simp add: abs_mult)
  also have "\<dots> \<le> (\<bar>c / z\<bar> / 2 ^ 53) * z" using e4 z by (intro mult_right_mono) simp_all
  also have "\<dots> = \<bar>c\<bar> / 2 ^ 53" using z by (simp add: abs_divide)
  finally have e4': "\<bar>w' * z - c\<bar> \<le> \<bar>c\<bar> / 2 ^ 53" .
  have b1: "\<bar>a\<bar> \<le> \<bar>m\<bar> + \<bar>m\<bar> / 2 ^ 53" using e1 by linarith
  have b2: "\<bar>sx - a\<bar> \<le> \<bar>sx\<bar> + \<bar>a\<bar>" by linarith
  have b3: "\<bar>sx - p\<bar> \<le> \<bar>a\<bar> + \<bar>sx - a\<bar> / 2 ^ 53" using e2 by linarith
  have b4: "\<bar>c - a\<bar> \<le> \<bar>sx - p\<bar> / 2 ^ 53 + \<bar>sx - a\<bar> / 2 ^ 53" using e2 e3 by linarith
  have b5: "\<bar>c - m\<bar> \<le> \<bar>c - a\<bar> + \<bar>m\<bar> / 2 ^ 53" using e1 by linarith
  have b6: "\<bar>c\<bar> \<le> \<bar>m\<bar> + \<bar>c - m\<bar>" by linarith
  have b7: "\<bar>w' * z - m\<bar> \<le> \<bar>c\<bar> / 2 ^ 53 + \<bar>c - m\<bar>" using e4' by linarith
  have fin: "\<bar>w' * z - m\<bar> \<le> (\<bar>m\<bar> + \<bar>sx\<bar>) / 2 ^ 50"
    by (rule rounding_chain [OF b1 b2 b3 b4 b5 b6 b7]) simp_all
  have "w' - W = (w' * z - m) / z" using z by (simp add: m_def field_simps)
  then have "\<bar>w' - W\<bar> = \<bar>w' * z - m\<bar> / z"
    using z by (simp add: abs_divide)
  also have "\<dots> \<le> ((\<bar>m\<bar> + \<bar>sx\<bar>) / 2 ^ 50) / z" by (rule divide_right_mono [OF fin]) (use z in simp)
  also have "\<dots> = (\<bar>W\<bar> + \<bar>sx\<bar> / z) / 2 ^ 50"
    using z by (simp add: m_def abs_mult field_simps)
  finally have "\<bar>w' - W\<bar> \<le> (\<bar>W\<bar> + \<bar>sx\<bar> / z) / 2 ^ 50" .
  then show ?thesis
    by (simp add: w'_def c_def p_def a_def m_def fdiv_def fsub_def fmul_def)
qed

text \<open>
  Claim C2, amended. For every camera state with positive zoom, every target zoom \<open>z\<close>
  and every screen anchor \<open>(px, py)\<close>: after \<^verbatim>\<open>setZoomTo\<close> the zoom is exactly \<open>z\<close>
  clamped to \<open>[0.25, 6]\<close>, and each coordinate of the world point that
  \<^verbatim>\<open>screenToWorld\<close> returns for the anchor differs from the coordinate \<open>w\<close> returned
  before the call by at most \<open>(\<bar>w\<bar> + \<bar>p\<bar> / zoom') / 2\<^sup>5\<^sup>0\<close>, where \<open>p\<close> is the
  screen coordinate of the anchor and \<open>zoom'\<close> the new zoom: the two points agree up to
  rounding, not exactly.
\<close>

theorem zoom_anchor_invariance:
  assumes "0 < zoom s"
  shows "zoom (setZoomTo z px py s) = max 0.25 (min 6 z)
         \<and> \<bar>fst (screenToWorld_dbl (setZoomTo z px py s) px py) - fst (screenToWorld_dbl s px py)\<bar>
             \<le> (\<bar>fst (screenToWorld_dbl s px py)\<bar> + \<bar>px\<bar> / max 0.25 (min 6 z)) / 2 ^ 50
         \<and> \<bar>snd (screenToWorld_dbl (setZoomTo z px py s) px py) - snd (screenToWorld_dbl s px py)\<bar>
             \<le> (\<bar>snd (screenToWorld_dbl s px py)\<bar> + \<bar>py\<bar> / max 0.25 (min 6 z)) / 2 ^ 50"
proof -
  let ?z = "max 0.25 (min 6 z) :: real"
  let ?wx = "fdiv (fsub px (panX s)) (zoom s)"
  let ?wy = "fdiv (fsub py (panY s)) (zoom s)"
  have z: "0 < ?z" by simp
  have s': "setZoomTo z px py s
              = s\<lparr>zoom := ?z, panX := fsub px (fmul ?wx ?z), panY := fsub py (fmul ?wy ?z)\<rparr>"
    by (simp add: setZoomTo_def Let_def clamp_def)
  have a: "zoom (setZoomTo z px py s) = ?z" unfolding s' by simp
  have b: "fst (screenToWorld_dbl (setZoomTo z px py s) px py)
             = fdiv (fsub px (fsub px (fmul ?wx ?z))) ?z"
    unfolding s' screenToWorld_dbl_def by simp
  have c: "snd (screenToWorld_dbl (setZoomTo z px py s) px py)
             = fdiv (fsub py (fsub py (fmul ?wy ?z))) ?z"
    unfolding s' screenToWorld_dbl_def by simp
  have d: "fst (screenToWorld_dbl s px py) = ?wx" "snd (screenToWorld_dbl s px py) = ?wy"
    by (simp_all add: screenToWorld_dbl_def)
  show ?thesis
    unfolding a b c d using anchor_error [OF z, of px ?wx] anchor_error [OF z, of py ?wy] by blast
qed

theorem zoom_anchor_invariance_witness:
  "0 < zoom (initialState\<lparr>zoom := 3, panX := 1\<rparr>)
   \<and> zoom (setZoomTo 2 2 0 (initialState\<lparr>zoom := 3, panX := 1\<rparr>)) = 2
   \<and> zoom (setZoomTo 7 2 0 (initialState\<lparr>zoom := 3, panX := 1\<rparr>)) = 6
   \<and> zoom (setZoomTo (1 / 10) 2 0 (initialState\<lparr>zoom := 3, panX := 1\<rparr>)) = 1 / 4
   \<and> \<bar>fst (screenToWorld_dbl (setZoomTo 2 2 0 (initialState\<lparr>zoom := 3, panX := 1\<rparr>)) 2 0)
        - fst (screenToWorld_dbl (initialState\<lparr>zoom := 3, panX := 1\<rparr>) 2 0)\<bar> = 1 / 2 ^ 54
   \<and> (1 :: real) / 2 ^ 54 \<le> (6004799503160661 / 2 ^ 54 + 2 / 2) / 2 ^ 50"
  using zoom_anchor_invariance [of "initialState\<lparr>zoom := 3, panX := 1\<rparr>" 2 2 0]
  by (simp add: zoom_sx zoom_sx') (simp add: setZoomTo_def Let_def clamp_def initialState_def)

subsection \<open>Scaling an object\<close>

text \<open>
  Claim C7 as stated fails: scaling the rectangle with corners \<open>(0,0)\<close> and \<open>(100,50)\<close>
  by the factor 2 about \<open>(50,25)\<close> does not give the corners \<open>(-25,-25)\<close> and
  \<open>(125,75)\<close>.
\<close>

theorem scale_scenario_counterexample:
  "scaleObjectXY (Shape Rect ''#111111'' 5 0 0 100 50 0) 2 2 50 25
     \<noteq> Shape Rect ''#111111'' 5 (-25) (-25) 125 75 0"
  by (simp add: scaleObjectXY_def scaleFactor_def clamp_def isFinite_def)

text \<open>
  Claim C7, amended. Scaling a rectangle with corners \<open>(0,0)\<close> and \<open>(100,50)\<close> by the
  uniform factor 2 about its centre \<open>(50,25)\<close> gives the corners \<open>(-50,-25)\<close> and
  \<open>(150,75)\<close>: both extents double.
\<close>

theorem scale_scenario:
  "scaleObjectXY (Shape Rect col sz 0 0 100 50 0) 2 2 50 25 = Shape Rect col sz (-50) (-25) 150 75 0"
  by (simp add: scaleObjectXY_def scaleFactor_def clamp_def isFinite_def)

subsection \<open>The reveal cursor\<close>

text \<open>
  Claim C10. For every integer \<open>step\<close>, \<^verbatim>\<open>revealTo(step)\<close> stores the cursor
  \<open>max (-1) (min (n - 1) step)\<close>, where \<open>n\<close> is the number of nodes: \<open>step\<close> itself
  when it lies between \<open>-1\<close> and \<open>n - 1\<close>, the nearer of the two bounds otherwise. The
  stored cursor therefore lies in \<open>[-1, n - 1]\<close>. The call keeps the number of nodes,
  changes nothing else in the state, and afterwards node \<open>i\<close> is visible exactly when
  \<open>i\<close> is at most the stored cursor.
\<close>

theorem revealTo_clamps:
  "revealTo step (ns, s) = (ns', s') \<Longrightarrow>
     svg_step (svg s') = max (- 1) (min (int (length ns) - 1) step)
     \<and> - 1 \<le> svg_step (svg s') \<and> svg_step (svg s') \<le> int (length ns) - 1
     \<and> length ns' = length ns
     \<and> (\<forall>i < length ns. ns' ! i = (int i \<le> svg_step (svg s')))
     \<and> s' = s\<lparr>svg := (svg s)\<lparr>svg_step := svg_step (svg s')\<rparr>\<rparr>"
  by (auto simp: revealTo_def Let_def)

theorem revealTo_clamps_witness:
  "revealTo 0 ([False, False, False], initialState)
     = ([True, False, False], initialState\<lparr>svg := default_svg\<lparr>svg_step := 0\<rparr>\<rparr>)
   \<and> svg_step (svg (initialState\<lparr>svg := default_svg\<lparr>svg_step := 0\<rparr>\<rparr>))
       = max (- 1) (min (int (length [False, False, False]) - 1) 0)
   \<and> revealTo 7 ([False, False, False], initialState)
     = ([True, True, True], initialState\<lparr>svg := default_svg\<lparr>svg_step := 2\<rparr>\<rparr>)
   \<and> revealTo (- 9) ([True, True, False], initialState)
     = ([False, False, False], initialState\<lparr>svg := default_svg\<lparr>svg_step := - 1\<rparr>\<rparr>)
   \<and> revealTo 1 ([False, False, False], initialState)
     = ([True, True, False], initialState\<lparr>svg := default_svg\<lparr>svg_step := 1\<rparr>\<rparr>)
   \<and> revealTo 5 ([], initialState)
     = ([], initialState\<lparr>svg := default_svg\<lparr>svg_step := - 1\<rparr>\<rparr>)"
  using revealTo_clamps [of 0 "[False, False, False]" initialState
          "[True, False, False]" "initialState\<lparr>svg := default_svg\<lparr>svg_step := 0\<rparr>\<rparr>"]
  by (simp add: revealTo_def Let_def initialState_def upt_rec)

text \<open>The reveal keys keep the cursor in range.\<close>

lemma keydownReveal_in_range:
  assumes "keydownReveal typing sh k (ns, s) = (ns', s')"
    and "- 1 \<le> svg_step (svg s)" "svg_step (svg s) \<le> int (length ns) - 1"
  shows "- 1 \<le> svg_step (svg s') \<and> svg_step (svg s') \<le> int (length ns') - 1"
  using assms by (auto simp: keydownReveal_def revealTo_def Let_def split: if_splits)

text \<open>What each reveal key stores, when the focus is not in an input field and there are nodes.\<close>

lemma keydownReveal_step:
  assumes "ns \<noteq> []"
  shows "svg_step (svg (snd (keydownReveal False sh k (ns, s)))) =
           (let jump = (if sh then 5 else 1); n = int (length ns) in
            if k = ArrowRight \<or> k = ArrowDown then max (- 1) (min (n - 1) (svg_step (svg s) + jump))
            else if k = ArrowLeft \<or> k = ArrowUp then max (- 1) (min (n - 1) (svg_step (svg s) - jump))
            else if k = Home then - 1
            else if k = End then n - 1
            else svg_step (svg s))"
  using assms by (cases ns) (simp_all add: keydownReveal_def revealTo_def Let_def)

subsection \<open>Undo and redo\<close>

lemma undo_stack_pushUndo:
  "undo_stack (pushUndo s) \<noteq> [] \<and> last (undo_stack (pushUndo s)) = snapshot s"
  by (cases "undo_stack s") (auto simp: pushUndo_def Let_def last_tl)

text \<open>
  Claim C5. Let \<open>s\<close> be the state before a mutating action and \<open>s1\<close> the state after
  it, where the action has called \<^verbatim>\<open>pushUndo\<close> once and then changed anything but the
  undo stack. Then \<^verbatim>\<open>undo()\<close> restores the object list of \<open>s\<close>, and \<^verbatim>\<open>redo()\<close> right
  after it restores the object list of \<open>s1\<close>.
\<close>

theorem undo_redo_roundtrip:
  assumes "undo_stack s1 = undo_stack (pushUndo s)"
  shows "objects (undo s1) = objects s \<and> objects (redo (undo s1)) = objects s1"
proof -
  have ne: "undo_stack s1 \<noteq> []" and la: "last (undo_stack s1) = snapshot s"
    using assms undo_stack_pushUndo [of s] by simp_all
  have u: "objects (undo s1) = objects s"
    using ne la by (simp add: undo_def Let_def applySnapshot_def snapshot_def deepClone_def)
  have r: "redo_stack (undo s1) = redo_stack s1 @ [snapshot s1]"
    using ne by (simp add: undo_def Let_def applySnapshot_def)
  have "objects (redo (undo s1)) = objects s1"
    using r by (simp add: redo_def Let_def applySnapshot_def snapshot_def deepClone_def)
  with u show ?thesis by simp
qed

theorem undo_redo_roundtrip_witness:
  "undo_stack (fst (clearClick (initialState\<lparr>objects := [Shape Line ''#111111'' 5 0 0 10 0 0]\<rparr>, initialGesture)))
     = undo_stack (pushUndo (initialState\<lparr>objects := [Shape Line ''#111111'' 5 0 0 10 0 0]\<rparr>))
   \<and> objects (fst (clearClick (initialState\<lparr>objects := [Shape Line ''#111111'' 5 0 0 10 0 0]\<rparr>, initialGesture))) = []
   \<and> objects (undo (fst (clearClick (initialState\<lparr>objects := [Shape Line ''#111111'' 5 0 0 10 0 0]\<rparr>, initialGesture))))
     = [Shape Line ''#111111'' 5 0 0 10 0 0]
   \<and> objects (redo (undo (fst (clearClick (initialState\<lparr>objects := [Shape Line ''#111111'' 5 0 0 10 0 0]\<rparr>, initialGesture))))) = []"
  using undo_redo_roundtrip [of "fst (clearClick (initialState\<lparr>objects := [Shape Line ''#111111'' 5 0 0 10 0 0]\<rparr>, initialGesture))"
      "initialState\<lparr>objects := [Shape Line ''#111111'' 5 0 0 10 0 0]\<rparr>"]
  by (simp add: clearClick_def Let_def clearRedo_def pushUndo_def initialState_def)

text \<open>
  The snapshot has no \<^verbatim>\<open>svg\<close> field, so \<^verbatim>\<open>applySnapshot\<close> falls back to the empty
  overlay: an undo after any action resets \<^verbatim>\<open>state.svg\<close>.
\<close>

lemma snapshot_no_svg: "snap_svg (snapshot s) = None"
  by (simp add: snapshot_def)

lemma undo_resets_svg:
  assumes "undo_stack s1 = undo_stack (pushUndo s)"
  shows "svg (undo s1) = default_svg"
proof -
  have "undo_stack s1 \<noteq> []" "last (undo_stack s1) = snapshot s"
    using assms undo_stack_pushUndo [of s] by simp_all
  then show ?thesis
    by (simp add: undo_def Let_def applySnapshot_def snapshot_def)
qed

text \<open>
  Claim C4 says that undo restores the overlay state (source text, position, reveal
  cursor) from a snapshot that contains it. On a board with an overlay loaded and its
  first node revealed, clearing the ink and undoing leaves \<^verbatim>\<open>state.svg\<close> with an empty
  source and the cursor at \<open>-1\<close>; the snapshot holds no overlay state at all.
\<close>

theorem undo_loses_overlay:
  "svg_src (svg (undo (fst (clearClick
      (initialState\<lparr>svg := default_svg\<lparr>svg_src := ''<svg><rect/></svg>'', svg_step := 0, svg_total := 1\<rparr>\<rparr>,
       initialGesture))))) = []
   \<and> svg_step (svg (undo (fst (clearClick
      (initialState\<lparr>svg := default_svg\<lparr>svg_src := ''<svg><rect/></svg>'', svg_step := 0, svg_total := 1\<rparr>\<rparr>,
       initialGesture))))) = -1
   \<and> snap_svg (snapshot (initialState\<lparr>svg := default_svg\<lparr>svg_src := ''<svg><rect/></svg>'', svg_step := 0, svg_total := 1\<rparr>\<rparr>)) = None"
  by (simp add: clearClick_def Let_def clearRedo_def pushUndo_def initialState_def undo_def
        applySnapshot_def snapshot_def default_svg_def)

subsection \<open>Hit-testing\<close>

lemma hitTol_eq: "hitTol ob = max 8 (fmul (obj_size ob) 1.5)"
proof (cases "obj_size ob = 0")
  case True
  then show ?thesis by (simp add: hitTol_def orElse_def fmul_def fl_zero fl_numeral)
next
  case False
  then show ?thesis by (simp add: hitTol_def orElse_def)
qed

lemma hitSegments_iff:
  "hitSegments hyp wx wy tol pts \<longleftrightarrow>
     (\<exists>i. Suc i < length pts \<and>
          distToSeg hyp wx wy (fst (pts ! i)) (snd (pts ! i)) (fst (pts ! Suc i)) (snd (pts ! Suc i)) \<le> tol)"
proof (induction hyp wx wy tol pts rule: hitSegments.induct)
  case (1 hyp wx wy tol p q rest)
  show ?case
  proof (cases "distToSeg hyp wx wy (fst p) (snd p) (fst q) (snd q) \<le> tol")
    case True
    then have "Suc 0 < length (p # q # rest) \<and>
       distToSeg hyp wx wy (fst ((p # q # rest) ! 0)) (snd ((p # q # rest) ! 0))
         (fst ((p # q # rest) ! Suc 0)) (snd ((p # q # rest) ! Suc 0)) \<le> tol" by simp
    then have "\<exists>i. Suc i < length (p # q # rest) \<and>
       distToSeg hyp wx wy (fst ((p # q # rest) ! i)) (snd ((p # q # rest) ! i))
         (fst ((p # q # rest) ! Suc i)) (snd ((p # q # rest) ! Suc i)) \<le> tol" by blast
    with True show ?thesis by simp
  next
    case False
    let ?P = "\<lambda>xs i. Suc i < length xs \<and>
       distToSeg hyp wx wy (fst (xs ! i)) (snd (xs ! i)) (fst (xs ! Suc i)) (snd (xs ! Suc i)) \<le> tol"
    have "(\<exists>i. ?P (p # q # rest) i) \<longleftrightarrow> (\<exists>i. ?P (q # rest) i)"
    proof
      assume "\<exists>i. ?P (p # q # rest) i"
      then obtain i where i: "?P (p # q # rest) i" by blast
      with False have "i \<noteq> 0" by (cases i) auto
      then obtain j where "i = Suc j" by (cases i) auto
      with i have "?P (q # rest) j" by simp
      then show "\<exists>i. ?P (q # rest) i" by blast
    next
      assume "\<exists>i. ?P (q # rest) i"
      then obtain j where "?P (q # rest) j" by blast
      then have "?P (p # q # rest) (Suc j)" by simp
      then show "\<exists>i. ?P (p # q # rest) i" by blast
    qed
    with False 1 show ?thesis by simp
  qed
qed simp_all

text \<open>
  \<open>segmentDistance\<close> is the distance from the point to the segment: no point
  \<open>(x1, y1) + t * ((x2, y2) - (x1, y1))\<close> with \<open>0 \<le> t \<le> 1\<close> is nearer, and one of
  them is at that distance.
\<close>

lemma clamp_quadratic:
  fixes D P t :: real
  assumes D: "0 < D" and t: "0 \<le> t" "t \<le> 1"
  shows "0 \<le> (t - clamp (P / D) 0 1) * (D * (t + clamp (P / D) 0 1) - 2 * P)"
proof -
  consider (lo) "P / D < 0" | (hi) "1 < P / D" | (mid) "0 \<le> P / D" "P / D \<le> 1"
    by linarith
  then show ?thesis
  proof cases
    case lo
    then have P: "P < 0" using D by (simp add: divide_less_0_iff)
    have tt: "clamp (P / D) 0 1 = 0" using lo by (simp add: clamp_def)
    have "0 \<le> D * t" using D t by simp
    then have "0 \<le> D * t - 2 * P" using P by linarith
    then have "0 \<le> t * (D * t - 2 * P)" using t by simp
    then show ?thesis by (simp add: tt)
  next
    case hi
    then have P: "D < P" using D by (simp add: less_divide_eq)
    have tt: "clamp (P / D) 0 1 = 1" using hi by (simp add: clamp_def)
    have "D * (t + 1) \<le> D * 2" using D t by (intro mult_left_mono) simp_all
    then have "D * (t + 1) - 2 * P \<le> 0" using P by linarith
    moreover have "t - 1 \<le> 0" using t by simp
    ultimately have "0 \<le> (t - 1) * (D * (t + 1) - 2 * P)" by (simp add: mult_nonpos_nonpos)
    then show ?thesis by (simp add: tt)
  next
    case mid
    then have tt: "clamp (P / D) 0 1 = P / D" by (simp add: clamp_def)
    have "D * (P / D) = P" using D by simp
    then have e: "D * (t + P / D) - 2 * P = D * (t - P / D)" by (simp add: algebra_simps)
    have "0 \<le> D * ((t - P / D) * (t - P / D))" using D by simp
    also have "D * ((t - P / D) * (t - P / D)) = (t - P / D) * (D * (t - P / D))"
      by (simp only: mult.left_commute)
    finally have nn: "0 \<le> (t - P / D) * (D * (t - P / D))" .
    show ?thesis unfolding tt e by (rule nn)
  qed
qed

lemma seg_quadratic:
  fixes a b dx dy t :: real
  assumes D: "0 < dx * dx + dy * dy" and t: "0 \<le> t" "t \<le> 1"
  shows "(a - clamp ((a * dx + b * dy) / (dx * dx + dy * dy)) 0 1 * dx)\<^sup>2
         + (b - clamp ((a * dx + b * dy) / (dx * dx + dy * dy)) 0 1 * dy)\<^sup>2
         \<le> (a - t * dx)\<^sup>2 + (b - t * dy)\<^sup>2"
proof -
  let ?D = "dx * dx + dy * dy"
  let ?P = "a * dx + b * dy"
  let ?tt = "clamp (?P / ?D) 0 1"
  have id: "((a - t * dx)\<^sup>2 + (b - t * dy)\<^sup>2) - ((a - ?tt * dx)\<^sup>2 + (b - ?tt * dy)\<^sup>2)
              = (t - ?tt) * (?D * (t + ?tt) - 2 * ?P)"
    by (simp add: power2_eq_square algebra_simps)
  from clamp_quadratic [OF D t, of ?P] id show ?thesis by linarith
qed

lemma segmentDistance_least:
  assumes t: "0 \<le> t" "t \<le> 1"
  shows "segmentDistance px py x1 y1 x2 y2
           \<le> hypot (px - (x1 + t * (x2 - x1))) (py - (y1 + t * (y2 - y1)))"
proof (cases "x2 - x1 = 0 \<and> y2 - y1 = 0")
  case True
  then show ?thesis by (simp add: segmentDistance_def)
next
  case False
  then have D: "0 < (x2 - x1) * (x2 - x1) + (y2 - y1) * (y2 - y1)"
    by (metis add_pos_nonneg add_nonneg_pos zero_le_square not_real_square_gt_zero)
  have "(px - x1 - clamp (((px - x1) * (x2 - x1) + (py - y1) * (y2 - y1))
            / ((x2 - x1) * (x2 - x1) + (y2 - y1) * (y2 - y1))) 0 1 * (x2 - x1))\<^sup>2
        + (py - y1 - clamp (((px - x1) * (x2 - x1) + (py - y1) * (y2 - y1))
            / ((x2 - x1) * (x2 - x1) + (y2 - y1) * (y2 - y1))) 0 1 * (y2 - y1))\<^sup>2
        \<le> (px - x1 - t * (x2 - x1))\<^sup>2 + (py - y1 - t * (y2 - y1))\<^sup>2"
    by (rule seg_quadratic [OF D t])
  then show ?thesis using False
    by (simp add: segmentDistance_def Let_def hypot_def power2_eq_square algebra_simps)
qed

lemma segmentDistance_attained:
  "\<exists>t. 0 \<le> t \<and> t \<le> 1
       \<and> segmentDistance px py x1 y1 x2 y2 = hypot (px - (x1 + t * (x2 - x1))) (py - (y1 + t * (y2 - y1)))"
proof (cases "x2 - x1 = 0 \<and> y2 - y1 = 0")
  case True
  then have "segmentDistance px py x1 y1 x2 y2 = hypot (px - (x1 + 0 * (x2 - x1))) (py - (y1 + 0 * (y2 - y1)))"
    by (simp add: segmentDistance_def)
  then show ?thesis by (intro exI [of _ 0]) simp
next
  case False
  let ?tt = "clamp (((px - x1) * (x2 - x1) + (py - y1) * (y2 - y1))
            / ((x2 - x1) * (x2 - x1) + (y2 - y1) * (y2 - y1))) 0 1"
  have "0 \<le> ?tt \<and> ?tt \<le> 1" by (simp add: clamp_def)
  moreover have "segmentDistance px py x1 y1 x2 y2
                   = hypot (px - (x1 + ?tt * (x2 - x1))) (py - (y1 + ?tt * (y2 - y1)))"
    using False by (simp add: segmentDistance_def Let_def)
  ultimately show ?thesis by blast
qed


text \<open>
  The distance that \<^verbatim>\<open>distToSeg\<close> computes is the exact distance up to rounding. The
  computed projection parameter, clamped, is the parameter of a point of the segment; that
  point is not farther from the given point than the nearest point of the segment by
  more than the parameter's error times the length of the segment, and the computed
  differences of coordinates are those to that point up to rounding. \<^verbatim>\<open>Math.hypot\<close>
  is assumed accurate to a relative error of \<open>2\<^sup>-\<^sup>5\<^sup>2\<close>.
\<close>

lemma hypot_triangle: "hypot (a + c) (b + d) \<le> hypot a b + hypot c d"
  using real_sqrt_sum_squares_triangle_ineq [of a c b d] by (simp add: hypot_def power2_eq_square)

lemma hypot_le_sum: "hypot a b \<le> \<bar>a\<bar> + \<bar>b\<bar>"
  using sqrt_sum_squares_le_sum_abs [of a b] by (simp add: hypot_def power2_eq_square)

lemma hypot_ge_zero: "0 \<le> hypot a b"
  by (simp add: hypot_def)

lemma hypot_perturb: "\<bar>hypot a b - hypot A B\<bar> \<le> \<bar>a - A\<bar> + \<bar>b - B\<bar>"
proof -
  have "hypot a b \<le> hypot A B + hypot (a - A) (b - B)"
    using hypot_triangle [of A "a - A" B "b - B"] by simp
  moreover have "hypot A B \<le> hypot a b + hypot (A - a) (B - b)"
    using hypot_triangle [of a "A - a" b "B - b"] by simp
  moreover note hypot_le_sum [of "a - A" "b - B"] hypot_le_sum [of "A - a" "B - b"]
  ultimately show ?thesis by linarith
qed

lemma hypot_scale: "hypot (t * x) (t * y) = \<bar>t\<bar> * hypot x y"
proof -
  have "(t * x) * (t * x) + (t * y) * (t * y) = t\<^sup>2 * (x * x + y * y)"
    by (simp add: power2_eq_square algebra_simps)
  then show ?thesis by (simp add: hypot_def real_sqrt_mult)
qed

lemma hypot_square: "hypot x y * hypot x y = x * x + y * y"
proof -
  have "0 \<le> x * x + y * y" by simp
  then show ?thesis by (simp add: hypot_def)
qed

lemma cauchy2: "\<bar>A * DX\<bar> + \<bar>B * DY\<bar> \<le> hypot A B * hypot DX DY"
proof -
  have "0 \<le> (\<bar>A\<bar> * \<bar>DY\<bar> - \<bar>B\<bar> * \<bar>DX\<bar>)\<^sup>2" by simp
  then have "(\<bar>A\<bar> * \<bar>DX\<bar> + \<bar>B\<bar> * \<bar>DY\<bar>)\<^sup>2 \<le> (A * A + B * B) * (DX * DX + DY * DY)"
    by (simp add: power2_eq_square algebra_simps) 
  then have "\<bar>A\<bar> * \<bar>DX\<bar> + \<bar>B\<bar> * \<bar>DY\<bar> \<le> sqrt ((A * A + B * B) * (DX * DX + DY * DY))"
    by (rule real_le_rsqrt)
  then show ?thesis by (simp add: hypot_def real_sqrt_mult abs_mult)
qed


lemma projection_err:
  assumes nd: "\<not> (x2 - x1 = 0 \<and> y2 - y1 = 0)"
  shows "\<bar>fdiv (fadd (fmul (fsub px x1) (fsub x2 x1)) (fmul (fsub py y1) (fsub y2 y1)))
              (fadd (fmul (fsub x2 x1) (fsub x2 x1)) (fmul (fsub y2 y1) (fsub y2 y1)))
          - ((px - x1) * (x2 - x1) + (py - y1) * (y2 - y1))
            / ((x2 - x1) * (x2 - x1) + (y2 - y1) * (y2 - y1))\<bar>
         * hypot (x2 - x1) (y2 - y1)
         \<le> 16 * hypot (px - x1) (py - y1) / 2 ^ 53"
proof -
  let ?A = "px - x1" and ?B = "py - y1" and ?DX = "x2 - x1" and ?DY = "y2 - y1"
  let ?a = "fsub px x1" and ?b = "fsub py y1" and ?dx = "fsub x2 x1" and ?dy = "fsub y2 y1"
  let ?S = "\<bar>?A * ?DX\<bar> + \<bar>?B * ?DY\<bar>"
  let ?D2 = "?DX * ?DX + ?DY * ?DY"
  let ?H = "hypot ?DX ?DY"
  let ?tc = "fdiv (fadd (fmul ?a ?dx) (fmul ?b ?dy)) (fadd (fmul ?dx ?dx) (fmul ?dy ?dy))"
  let ?t = "(?A * ?DX + ?B * ?DY) / ?D2"
  note ea = fsub_err [of px x1] and eb = fsub_err [of py y1]
    and ex = fsub_err [of x2 x1] and ey = fsub_err [of y2 y1]
  have N: "\<bar>fadd (fmul ?a ?dx) (fmul ?b ?dy) - (?A * ?DX + ?B * ?DY)\<bar> \<le> 6 * ?S / 2 ^ 53"
    by (rule sum_err [OF prod_err [OF ea ex] prod_err [OF eb ey]])
  have "\<bar>fadd (fmul ?dx ?dx) (fmul ?dy ?dy) - ?D2\<bar> \<le> 6 * (\<bar>?DX * ?DX\<bar> + \<bar>?DY * ?DY\<bar>) / 2 ^ 53"
    by (rule sum_err [OF prod_err [OF ex ex] prod_err [OF ey ey]])
  then have D: "\<bar>fadd (fmul ?dx ?dx) (fmul ?dy ?dy) - ?D2\<bar> \<le> 6 * ?D2 / 2 ^ 53"
    by (simp only: abs_mult_self_eq abs_of_nonneg [OF zero_le_square])
  have D2: "0 < ?D2" using nd
    by (metis add_pos_nonneg add_nonneg_pos zero_le_square not_real_square_gt_zero)
  have NS: "\<bar>?A * ?DX + ?B * ?DY\<bar> \<le> ?S" by linarith
  have q: "\<bar>?tc - ?t\<bar> \<le> 16 * (?S / ?D2) / 2 ^ 53" by (rule quot_err [OF N NS D D2])
  have HH: "?H * ?H = ?D2" by (rule hypot_square)
  have H0: "0 \<le> ?H" by (rule hypot_ge_zero)
  have H: "0 < ?H"
  proof (rule ccontr)
    assume "\<not> 0 < ?H"
    with H0 have "?H = 0" by linarith
    with HH D2 show False by simp
  qed
  have "?S / ?D2 * ?H = ?S / ?H" using H HH [symmetric] by simp
  also have "\<dots> \<le> hypot ?A ?B" using cauchy2 [of ?A ?DX ?B ?DY] H by (simp add: field_simps)
  finally have r: "?S / ?D2 * ?H \<le> hypot ?A ?B" .
  have "\<bar>?tc - ?t\<bar> * ?H \<le> (16 * (?S / ?D2) / 2 ^ 53) * ?H" using q H0 by (rule mult_right_mono)
  also have "\<dots> = 16 * (?S / ?D2 * ?H) / 2 ^ 53" by simp
  also have "\<dots> \<le> 16 * hypot ?A ?B / 2 ^ 53"
    by (rule divide_right_mono [OF mult_left_mono [OF r]]) simp_all
  finally show ?thesis .
qed

lemma lin_degenerate:
  fixes NA NB :: real
  assumes "EG \<le> EA + EB" "EA \<le> NA / 2 ^ 53" "EB \<le> NB / 2 ^ 53" "EH \<le> G / 2 ^ 52"
    "G \<le> F + EG" "F \<le> NA + NB" "NA \<le> NPX + NX1" "NB \<le> NPY + NY1" "E \<le> EH + EG"
    "0 \<le> NPX" "0 \<le> NPY" "0 \<le> NX1" "0 \<le> NY1" "0 \<le> NX2" "0 \<le> NY2"
  shows "E \<le> (NPX + NPY + NX1 + NY1 + NX2 + NY2) / 2 ^ 48"
  using assms by simp

lemma lin_segment:
  fixes NPX NPY NX1 NY1 NX2 NY2 :: real
  assumes "FD \<le> L" "L \<le> 16 * HAB / 2 ^ 53" "HAB \<le> NA + NB"
    "EG \<le> UX + UY" "UX \<le> (NPX + 3 * NX1 + 7 * NDX) / 2 ^ 53"
    "UY \<le> (NPY + 3 * NY1 + 7 * NDY) / 2 ^ 53"
    "EH \<le> G / 2 ^ 52" "G \<le> F + EG" "F \<le> NPX + NX1 + NDX + (NPY + NY1 + NDY)"
    "NDX \<le> NX1 + NX2" "NDY \<le> NY1 + NY2" "NA \<le> NPX + NX1" "NB \<le> NPY + NY1"
    "E \<le> EH + EG + FD"
    "0 \<le> NPX" "0 \<le> NPY" "0 \<le> NX1" "0 \<le> NY1" "0 \<le> NX2" "0 \<le> NY2"
  shows "E \<le> (NPX + NPY + NX1 + NY1 + NX2 + NY2) / 2 ^ 48"
  using assms by simp

lemma unit_scale: "0 \<le> t \<Longrightarrow> t \<le> 1 \<Longrightarrow> \<bar>t * D\<bar> \<le> \<bar>D\<bar>" for t D :: real
proof -
  assume t: "0 \<le> t" "t \<le> 1"
  have "\<bar>t * D\<bar> = t * \<bar>D\<bar>" using t by (simp add: abs_mult)
  also have "\<dots> \<le> 1 * \<bar>D\<bar>" using t by (intro mult_right_mono) simp_all
  finally show ?thesis by simp
qed

theorem distToSeg_error:
  assumes hyp: "\<And>x y. \<bar>hyp x y - hypot x y\<bar> \<le> hypot x y / 2 ^ 52"
  shows "\<bar>distToSeg hyp px py x1 y1 x2 y2 - segmentDistance px py x1 y1 x2 y2\<bar>
           \<le> (\<bar>px\<bar> + \<bar>py\<bar> + \<bar>x1\<bar> + \<bar>y1\<bar> + \<bar>x2\<bar> + \<bar>y2\<bar>) / 2 ^ 48"
proof (cases "x2 - x1 = 0 \<and> y2 - y1 = 0")
  case True
  let ?a = "fsub px x1" and ?b = "fsub py y1"
  let ?A = "px - x1" and ?B = "py - y1"
  have dc: "distToSeg hyp px py x1 y1 x2 y2 = hyp ?a ?b"
    using True by (simp add: distToSeg_def Let_def fsub_def fl_zero_iff)
  have ds: "segmentDistance px py x1 y1 x2 y2 = hypot ?A ?B"
    using True by (simp add: segmentDistance_def Let_def)
  have eg: "\<bar>hypot ?a ?b - hypot ?A ?B\<bar> \<le> \<bar>?a - ?A\<bar> + \<bar>?b - ?B\<bar>" by (rule hypot_perturb)
  have g: "hypot ?a ?b \<le> hypot ?A ?B + \<bar>hypot ?a ?b - hypot ?A ?B\<bar>" by linarith
  have e: "\<bar>hyp ?a ?b - hypot ?A ?B\<bar> \<le> \<bar>hyp ?a ?b - hypot ?a ?b\<bar> + \<bar>hypot ?a ?b - hypot ?A ?B\<bar>"
    by linarith
  have na: "\<bar>?A\<bar> \<le> \<bar>px\<bar> + \<bar>x1\<bar>" by linarith
  have nb: "\<bar>?B\<bar> \<le> \<bar>py\<bar> + \<bar>y1\<bar>" by linarith
  have "\<bar>hyp ?a ?b - hypot ?A ?B\<bar> \<le> (\<bar>px\<bar> + \<bar>py\<bar> + \<bar>x1\<bar> + \<bar>y1\<bar> + \<bar>x2\<bar> + \<bar>y2\<bar>) / 2 ^ 48"
    by (rule lin_degenerate [OF eg fsub_err fsub_err hyp g hypot_le_sum na nb e]) simp_all
  then show ?thesis by (simp only: dc ds)
next
  case False
  let ?A = "px - x1" and ?B = "py - y1" and ?DX = "x2 - x1" and ?DY = "y2 - y1"
  let ?dx = "fsub x2 x1" and ?dy = "fsub y2 y1"
  let ?tc = "fdiv (fadd (fmul (fsub px x1) ?dx) (fmul (fsub py y1) ?dy))
                  (fadd (fmul ?dx ?dx) (fmul ?dy ?dy))"
  let ?t = "(?A * ?DX + ?B * ?DY) / (?DX * ?DX + ?DY * ?DY)"
  define r where "r = clamp ?tc 0 1"
  define s where "s = clamp ?t 0 1"
  let ?ex = "fsub px (fadd x1 (fmul r ?dx))" and ?ey = "fsub py (fadd y1 (fmul r ?dy))"
  let ?WX = "px - (x1 + r * ?DX)" and ?WY = "py - (y1 + r * ?DY)"
  let ?H = "hypot ?DX ?DY"
  have nz: "\<not> (?dx = 0 \<and> ?dy = 0)" using False by (simp add: fsub_def fl_zero_iff)
  have dc: "distToSeg hyp px py x1 y1 x2 y2 = hyp ?ex ?ey"
    unfolding distToSeg_def Let_def r_def by (simp only: nz if_False)
  have ds: "segmentDistance px py x1 y1 x2 y2 = hypot (px - (x1 + s * ?DX)) (py - (y1 + s * ?DY))"
    using False by (simp add: segmentDistance_def Let_def s_def)
  have r: "0 \<le> r" "r \<le> 1" using clamp_unit [of ?tc] by (simp_all add: r_def)
  have f1: "segmentDistance px py x1 y1 x2 y2 \<le> hypot ?WX ?WY"
    by (rule segmentDistance_least [OF r])
  have "hypot ?WX ?WY
          = hypot ((px - (x1 + s * ?DX)) + (s - r) * ?DX) ((py - (y1 + s * ?DY)) + (s - r) * ?DY)"
    by (simp add: algebra_simps)
  also have "\<dots> \<le> hypot (px - (x1 + s * ?DX)) (py - (y1 + s * ?DY))
                     + hypot ((s - r) * ?DX) ((s - r) * ?DY)"
    by (rule hypot_triangle)
  finally have f2: "hypot ?WX ?WY \<le> segmentDistance px py x1 y1 x2 y2 + \<bar>s - r\<bar> * ?H"
    by (simp only: ds hypot_scale)
  have "\<bar>s - r\<bar> \<le> \<bar>?t - ?tc\<bar>" unfolding r_def s_def by (rule clamp_lipschitz)
  then have "\<bar>s - r\<bar> \<le> \<bar>?tc - ?t\<bar>" by (simp only: abs_minus_commute [of ?tc ?t])
  then have "\<bar>s - r\<bar> * ?H \<le> \<bar>?tc - ?t\<bar> * ?H" using hypot_ge_zero by (rule mult_right_mono)
  also have "\<dots> \<le> 16 * hypot ?A ?B / 2 ^ 53" by (rule projection_err [OF False])
  finally have l: "\<bar>s - r\<bar> * ?H \<le> 16 * hypot ?A ?B / 2 ^ 53" .
  have fd: "\<bar>hypot ?WX ?WY - segmentDistance px py x1 y1 x2 y2\<bar> \<le> \<bar>s - r\<bar> * ?H"
    using f1 f2 by linarith
  have eg: "\<bar>hypot ?ex ?ey - hypot ?WX ?WY\<bar> \<le> \<bar>?ex - ?WX\<bar> + \<bar>?ey - ?WY\<bar>" by (rule hypot_perturb)
  have ex: "\<bar>?ex - ?WX\<bar> \<le> (\<bar>px\<bar> + 3 * \<bar>x1\<bar> + 7 * \<bar>?DX\<bar>) / 2 ^ 53"
    by (rule coord_err [OF r fsub_err])
  have ey: "\<bar>?ey - ?WY\<bar> \<le> (\<bar>py\<bar> + 3 * \<bar>y1\<bar> + 7 * \<bar>?DY\<bar>) / 2 ^ 53"
    by (rule coord_err [OF r fsub_err])
  have g: "hypot ?ex ?ey \<le> hypot ?WX ?WY + \<bar>hypot ?ex ?ey - hypot ?WX ?WY\<bar>" by linarith
  note rx = unit_scale [OF r, of ?DX] and ry = unit_scale [OF r, of ?DY]
  have "\<bar>?WX\<bar> \<le> \<bar>px\<bar> + \<bar>x1\<bar> + \<bar>r * ?DX\<bar>" by linarith
  with rx have bx: "\<bar>?WX\<bar> \<le> \<bar>px\<bar> + \<bar>x1\<bar> + \<bar>?DX\<bar>" by linarith
  have "\<bar>?WY\<bar> \<le> \<bar>py\<bar> + \<bar>y1\<bar> + \<bar>r * ?DY\<bar>" by linarith
  with ry have by': "\<bar>?WY\<bar> \<le> \<bar>py\<bar> + \<bar>y1\<bar> + \<bar>?DY\<bar>" by linarith
  have f: "hypot ?WX ?WY \<le> \<bar>px\<bar> + \<bar>x1\<bar> + \<bar>?DX\<bar> + (\<bar>py\<bar> + \<bar>y1\<bar> + \<bar>?DY\<bar>)"
    using hypot_le_sum [of ?WX ?WY] bx by' by linarith
  have ndx: "\<bar>?DX\<bar> \<le> \<bar>x1\<bar> + \<bar>x2\<bar>" by linarith
  have ndy: "\<bar>?DY\<bar> \<le> \<bar>y1\<bar> + \<bar>y2\<bar>" by linarith
  have na: "\<bar>?A\<bar> \<le> \<bar>px\<bar> + \<bar>x1\<bar>" by linarith
  have nb: "\<bar>?B\<bar> \<le> \<bar>py\<bar> + \<bar>y1\<bar>" by linarith
  have e: "\<bar>hyp ?ex ?ey - segmentDistance px py x1 y1 x2 y2\<bar>
             \<le> \<bar>hyp ?ex ?ey - hypot ?ex ?ey\<bar> + \<bar>hypot ?ex ?ey - hypot ?WX ?WY\<bar>
                 + \<bar>hypot ?WX ?WY - segmentDistance px py x1 y1 x2 y2\<bar>"
    by linarith
  have "\<bar>hyp ?ex ?ey - segmentDistance px py x1 y1 x2 y2\<bar>
          \<le> (\<bar>px\<bar> + \<bar>py\<bar> + \<bar>x1\<bar> + \<bar>y1\<bar> + \<bar>x2\<bar> + \<bar>y2\<bar>) / 2 ^ 48"
    by (rule lin_segment [OF fd l hypot_le_sum eg ex ey hyp g f ndx ndy na nb e]) simp_all
  then show ?thesis by (simp only: dc)
qed

text \<open>
  The line from \<open>(0, 0)\<close> to \<open>(18, 24)\<close> and the point \<open>(3, 24)\<close>, step by step in double
  arithmetic.
\<close>

lemma miss_t: "fdiv (fadd (fmul 3 18) (fmul 24 24)) (fadd (fmul 18 18) (fmul 24 24))
                 = 6305039478318694 / 2 ^ 53"
  using fl_eval [of "- 1" "7 / 10"] by (simp add: fdiv_def fadd_def fmul_def fl_numeral roundEven_def)

lemma miss_clamp: "clamp (6305039478318694 / 2 ^ 53) 0 1 = 6305039478318694 / 2 ^ 53"
  by (simp add: clamp_def)

lemma miss_mx: "fmul (6305039478318694 / 2 ^ 53) 18 = 7093169413108531 / 2 ^ 49"
  using fl_eval [of 3 "6305039478318694 / 2 ^ 53 * 18"] by (simp add: fmul_def roundEven_def)

lemma miss_my: "fmul (6305039478318694 / 2 ^ 53) 24 = 4728779608739020 / 2 ^ 48"
  using fl_eval [of 4 "6305039478318694 / 2 ^ 53 * 24"] by (simp add: fmul_def roundEven_def)

lemma miss_cx: "fadd 0 (7093169413108531 / 2 ^ 49) = 7093169413108531 / 2 ^ 49"
  using fl_eval [of 3 "7093169413108531 / 2 ^ 49"] by (simp add: fadd_def roundEven_def)

lemma miss_cy: "fadd 0 (4728779608739020 / 2 ^ 48) = 4728779608739020 / 2 ^ 48"
  using fl_eval [of 4 "4728779608739020 / 2 ^ 48"] by (simp add: fadd_def roundEven_def)

lemma miss_ex: "fsub 3 (7093169413108531 / 2 ^ 49) = - 5404319552844595 / 2 ^ 49"
  using fl_eval [of 3 "3 - 7093169413108531 / 2 ^ 49"] by (simp add: fsub_def roundEven_def)

lemma miss_ey: "fsub 24 (4728779608739020 / 2 ^ 48) = 2026619832316724 / 2 ^ 48"
  using fl_eval [of 2 "24 - 4728779608739020 / 2 ^ 48"] by (simp add: fsub_def roundEven_def)

lemma miss_hyp: "hypotD (- 5404319552844595 / 2 ^ 49) (2026619832316724 / 2 ^ 48)
                   = 6755399441055745 / 2 ^ 49"
  using fl_sqrt [of 3 "(- 5404319552844595 / 2 ^ 49) * (- 5404319552844595 / 2 ^ 49)
                        + (2026619832316724 / 2 ^ 48) * (2026619832316724 / 2 ^ 48)"
                   6755399441055745]
  by (simp add: hypotD_def power2_eq_square)

lemma miss_int: "fsub 18 0 = 18" "fsub 24 0 = 24" "fsub 3 0 = 3"
  by (simp_all add: fsub_def fl_numeral)

lemma miss_dist: "distToSeg hypotD 3 24 0 0 18 24 = 6755399441055745 / 2 ^ 49"
proof -
  have nz: "((18 :: real) = 0 \<and> (24 :: real) = 0) = False" by simp
  show ?thesis
    unfolding distToSeg_def Let_def
    by (simp only: miss_int nz if_False miss_t miss_clamp miss_mx miss_my miss_cx miss_cy
          miss_ex miss_ey miss_hyp)
qed

lemma miss_exact: "segmentDistance 3 24 0 0 18 24 = 12"
proof -
  have "sqrt ((12 :: real)\<^sup>2) = 12" by (simp del: power2_eq_square)
  then have "sqrt (144 :: real) = 12" by simp
  then show ?thesis by (simp add: segmentDistance_def Let_def clamp_def hypot_def)
qed

text \<open>
  The line from \<open>(0, 0)\<close> to \<open>(10, 0)\<close> and the point \<open>(10 + 2\<^sup>-\<^sup>2\<^sup>7, 9)\<close>.
\<close>

lemma hit_px: "fsub (1342177281 / 2 ^ 27) 0 = 1342177281 / 2 ^ 27"
  using fl_eval [of 3 "1342177281 / 2 ^ 27"] by (simp add: fsub_def roundEven_def)

lemma hit_int: "fsub 10 0 = 10" "fsub 0 0 = 0" "fsub 9 0 = 9" "fmul 9 0 = 0" "fmul 10 10 = 100"
  "fmul 0 0 = 0" "fadd 100 0 = 100" "fmul 1 10 = 10" "fmul 1 0 = 0" "fadd 0 10 = 10" "fadd 0 0 = 0"
  by (simp_all add: fsub_def fmul_def fadd_def fl_numeral fl_zero)

lemma hit_m: "fmul (1342177281 / 2 ^ 27) 10 = 13421772810 / 2 ^ 27"
  using fl_eval [of 6 "1342177281 / 2 ^ 27 * 10"] by (simp add: fmul_def roundEven_def)

lemma hit_n: "fadd (13421772810 / 2 ^ 27) 0 = 13421772810 / 2 ^ 27"
  using fl_eval [of 6 "13421772810 / 2 ^ 27"] by (simp add: fadd_def roundEven_def)

lemma hit_t: "fdiv (13421772810 / 2 ^ 27) 100 = 4503599630725939 / 2 ^ 52"
  using fl_eval [of 0 "13421772810 / 2 ^ 27 / 100"] by (simp add: fdiv_def roundEven_def)

lemma hit_clamp: "clamp (4503599630725939 / 2 ^ 52) 0 1 = 1"
  by (simp add: clamp_def)

lemma hit_ex: "fsub (1342177281 / 2 ^ 27) 10 = 1 / 2 ^ 27"
  using fl_eval [of "- 27" "1 / 2 ^ 27"] by (simp add: fsub_def roundEven_def)

lemma hit_hyp: "hypotD (1 / 2 ^ 27) 9 = 9"
  using fl_sqrt [of 3 "(1 / 2 ^ 27) * (1 / 2 ^ 27) + 9 * 9" 5066549580791808]
  by (simp add: hypotD_def power2_eq_square)

lemma hit_dist: "distToSeg hypotD (1342177281 / 2 ^ 27) 9 0 0 10 0 = 9"
proof -
  have nz: "((10 :: real) = 0 \<and> (0 :: real) = 0) = False" by simp
  show ?thesis
    unfolding distToSeg_def Let_def
    by (simp only: hit_px hit_int nz if_False hit_m hit_n hit_t hit_clamp hit_ex hit_hyp)
qed

lemma hit_exact: "9 < segmentDistance (1342177281 / 2 ^ 27) 9 0 0 10 0"
proof -
  have "(9 :: real)\<^sup>2 < (1 / 2 ^ 27) * (1 / 2 ^ 27) + 9 * 9" by simp
  then have "9 < sqrt ((1 / 2 ^ 27) * (1 / 2 ^ 27) + 9 * 9 :: real)" by (rule real_less_rsqrt)
  moreover have "segmentDistance (1342177281 / 2 ^ 27) 9 0 0 10 0
                   = sqrt ((1 / 2 ^ 27) * (1 / 2 ^ 27) + 9 * 9)"
    by (simp add: segmentDistance_def Let_def clamp_def hypot_def)
  ultimately show ?thesis by simp
qed

lemma tol_8: "hitTol (Shape Line ''#111111'' 8 0 0 18 24 0) = 12"
  by (simp add: hitTol_eq fmul_def fl_numeral)

lemma tol_6: "hitTol (Shape Line ''#111111'' 6 0 0 10 0 0) = 9"
  by (simp add: hitTol_eq fmul_def fl_numeral)

text \<open>
  Claim C9 as stated fails at the boundary, in both directions, when the distance is the
  exact distance from the point to the segment. The point \<open>(3, 24)\<close> is at distance
  exactly 12 from the line from \<open>(0, 0)\<close> to \<open>(18, 24)\<close> of size 8, whose tolerance
  is 12; \<^verbatim>\<open>distToSeg\<close> computes \<open>12.000000000000002\<close> and the line is not hit. The
  point \<open>(10 + 2\<^sup>-\<^sup>2\<^sup>7, 9)\<close> is farther than 9 from the line from \<open>(0, 0)\<close> to
  \<open>(10, 0)\<close> of size 6, whose tolerance is 9; \<^verbatim>\<open>distToSeg\<close> computes 9 and the line
  is hit. \<^verbatim>\<open>Math.hypot\<close> is taken correctly rounded.
\<close>

theorem hitTest_boundary_counterexample:
  "segmentDistance 3 24 0 0 18 24 = 12
   \<and> hitTol (Shape Line ''#111111'' 8 0 0 18 24 0) = 12
   \<and> distToSeg hypotD 3 24 0 0 18 24 = 6755399441055745 / 2 ^ 49
   \<and> \<not> hitObject halfWidth hypotD (Shape Line ''#111111'' 8 0 0 18 24 0) 3 24
   \<and> 9 < segmentDistance (1342177281 / 2 ^ 27) 9 0 0 10 0
   \<and> hitTol (Shape Line ''#111111'' 6 0 0 10 0 0) = 9
   \<and> distToSeg hypotD (1342177281 / 2 ^ 27) 9 0 0 10 0 = 9
   \<and> hitObject halfWidth hypotD (Shape Line ''#111111'' 6 0 0 10 0 0) (1342177281 / 2 ^ 27) 9"
proof -
  have a: "\<not> hitObject halfWidth hypotD (Shape Line ''#111111'' 8 0 0 18 24 0) 3 24"
    by (simp only: hitObject.simps miss_dist tol_8) simp
  have b: "hitObject halfWidth hypotD (Shape Line ''#111111'' 6 0 0 10 0 0) (1342177281 / 2 ^ 27) 9"
    by (simp only: hitObject.simps hit_dist tol_6)
  from miss_exact tol_8 miss_dist a hit_exact tol_6 hit_dist b show ?thesis by blast
qed

text \<open>A correctly rounded \<^verbatim>\<open>Math.hypot\<close> has that accuracy, and the tolerance is that of the claim up to one rounding.\<close>

lemma hypotD_accurate: "\<bar>hypotD x y - hypot x y\<bar> \<le> hypot x y / 2 ^ 52"
proof -
  have "\<bar>fl (hypot x y) - hypot x y\<bar> \<le> \<bar>hypot x y\<bar> / 2 ^ 53" by (rule fl_error)
  moreover have "0 \<le> hypot x y" by (rule hypot_ge_zero)
  ultimately have "\<bar>fl (hypot x y) - hypot x y\<bar> \<le> hypot x y / 2 ^ 52" by simp
  then show ?thesis by (simp only: hypotD_def hypot_def)
qed

lemma hitTol_error: "\<bar>hitTol ob - max 8 (obj_size ob * 1.5)\<bar> \<le> \<bar>obj_size ob * 1.5\<bar> / 2 ^ 53"
proof -
  have "\<bar>fl (obj_size ob * 1.5) - obj_size ob * 1.5\<bar> \<le> \<bar>obj_size ob * 1.5\<bar> / 2 ^ 53"
    by (rule fl_error)
  moreover have "\<bar>max 8 a - max 8 b\<bar> \<le> \<bar>a - b\<bar>" for a b :: real by (simp add: max_def)
  ultimately show ?thesis unfolding hitTol_eq fmul_def
    by (meson order_trans)
qed

text \<open>
  Claim C9, amended. With the tolerance \<open>max 8 (size * 1.5)\<close>, the product rounded, a
  stroke or an eraser is hit exactly when the distance that \<^verbatim>\<open>distToSeg\<close> computes in
  double arithmetic from the point to one of the segments between consecutive points is
  at most the tolerance (inclusive), and a line or an arrow exactly when the distance
  computed to its segment is at most the tolerance (inclusive); this holds for every
  \<^verbatim>\<open>Math.hypot\<close>. When \<^verbatim>\<open>Math.hypot\<close> is accurate to a relative error of
  \<open>2\<^sup>-\<^sup>5\<^sup>2\<close>, the computed distance from \<open>(wx, wy)\<close> to the segment between
  \<open>(x1, y1)\<close> and \<open>(x2, y2)\<close> differs from the exact distance \<open>segmentDistance\<close> by
  at most \<open>(\<bar>wx\<bar> + \<bar>wy\<bar> + \<bar>x1\<bar> + \<bar>y1\<bar> + \<bar>x2\<bar> + \<bar>y2\<bar>) / 2\<^sup>4\<^sup>8\<close>: only within
  that margin of the boundary can the answer differ from that of the exact distance.
\<close>

theorem hitTest_boundary:
  "(hitObject mt hyp (Stroke col sz pts) wx wy \<longleftrightarrow>
      (\<exists>i. Suc i < length pts \<and>
           distToSeg hyp wx wy (fst (pts ! i)) (snd (pts ! i)) (fst (pts ! Suc i)) (snd (pts ! Suc i))
             \<le> max 8 (fmul sz 1.5)))
   \<and> (hitObject mt hyp (Erase sz pts) wx wy \<longleftrightarrow>
      (\<exists>i. Suc i < length pts \<and>
           distToSeg hyp wx wy (fst (pts ! i)) (snd (pts ! i)) (fst (pts ! Suc i)) (snd (pts ! Suc i))
             \<le> max 8 (fmul sz 1.5)))
   \<and> (hitObject mt hyp (Shape Line col sz x1 y1 x2 y2 rot) wx wy \<longleftrightarrow>
        distToSeg hyp wx wy x1 y1 x2 y2 \<le> max 8 (fmul sz 1.5))
   \<and> (hitObject mt hyp (Shape Arrow col sz x1 y1 x2 y2 rot) wx wy \<longleftrightarrow>
        distToSeg hyp wx wy x1 y1 x2 y2 \<le> max 8 (fmul sz 1.5))
   \<and> ((\<forall>x y. \<bar>hyp x y - hypot x y\<bar> \<le> hypot x y / 2 ^ 52) \<longrightarrow>
        \<bar>distToSeg hyp wx wy x1 y1 x2 y2 - segmentDistance wx wy x1 y1 x2 y2\<bar>
          \<le> (\<bar>wx\<bar> + \<bar>wy\<bar> + \<bar>x1\<bar> + \<bar>y1\<bar> + \<bar>x2\<bar> + \<bar>y2\<bar>) / 2 ^ 48)"
proof -
  have e: "(\<forall>x y. \<bar>hyp x y - hypot x y\<bar> \<le> hypot x y / 2 ^ 52) \<longrightarrow>
        \<bar>distToSeg hyp wx wy x1 y1 x2 y2 - segmentDistance wx wy x1 y1 x2 y2\<bar>
          \<le> (\<bar>wx\<bar> + \<bar>wy\<bar> + \<bar>x1\<bar> + \<bar>y1\<bar> + \<bar>x2\<bar> + \<bar>y2\<bar>) / 2 ^ 48"
    using distToSeg_error [of hyp wx wy x1 y1 x2 y2] by blast
  have a: "(hitObject mt hyp (Stroke col sz pts) wx wy \<longleftrightarrow>
      (\<exists>i. Suc i < length pts \<and>
           distToSeg hyp wx wy (fst (pts ! i)) (snd (pts ! i)) (fst (pts ! Suc i)) (snd (pts ! Suc i))
             \<le> max 8 (fmul sz 1.5)))
   \<and> (hitObject mt hyp (Erase sz pts) wx wy \<longleftrightarrow>
      (\<exists>i. Suc i < length pts \<and>
           distToSeg hyp wx wy (fst (pts ! i)) (snd (pts ! i)) (fst (pts ! Suc i)) (snd (pts ! Suc i))
             \<le> max 8 (fmul sz 1.5)))
   \<and> (hitObject mt hyp (Shape Line col sz x1 y1 x2 y2 rot) wx wy \<longleftrightarrow>
        distToSeg hyp wx wy x1 y1 x2 y2 \<le> max 8 (fmul sz 1.5))
   \<and> (hitObject mt hyp (Shape Arrow col sz x1 y1 x2 y2 rot) wx wy \<longleftrightarrow>
        distToSeg hyp wx wy x1 y1 x2 y2 \<le> max 8 (fmul sz 1.5))"
    by (simp add: hitSegments_iff hitTol_eq)
  from a e show ?thesis by blast
qed

theorem hitTest_boundary_witness:
  "(\<forall>x y. \<bar>hypotD x y - hypot x y\<bar> \<le> hypot x y / 2 ^ 52)
   \<and> \<bar>distToSeg hypotD 3 24 0 0 18 24 - segmentDistance 3 24 0 0 18 24\<bar>
       \<le> (\<bar>3\<bar> + \<bar>24\<bar> + \<bar>0\<bar> + \<bar>0\<bar> + \<bar>18\<bar> + \<bar>24\<bar>) / 2 ^ 48
   \<and> distToSeg hypotD 3 24 0 0 18 24 - segmentDistance 3 24 0 0 18 24 = 1 / 2 ^ 49
   \<and> hitObject halfWidth hypotD (Shape Line ''#111111'' 6 0 0 8 0 0) 4 9
   \<and> \<not> hitObject halfWidth hypotD (Shape Line ''#111111'' 6 0 0 8 0 0) 4 10
   \<and> hitObject halfWidth hypotD (Stroke ''#111111'' 2 [(0, 0), (8, 0), (8, 8)]) 16 0
   \<and> \<not> hitObject halfWidth hypotD (Stroke ''#111111'' 2 [(0, 0), (8, 0), (8, 8)]) 24 0
   \<and> \<not> hitObject halfWidth hypotD (Erase 10 [(0, 0)]) 0 0"
proof -
  have acc: "\<forall>x y. \<bar>hypotD x y - hypot x y\<bar> \<le> hypot x y / 2 ^ 52"
    using hypotD_accurate by blast
  have b: "\<bar>distToSeg hypotD 3 24 0 0 18 24 - segmentDistance 3 24 0 0 18 24\<bar>
       \<le> (\<bar>3\<bar> + \<bar>24\<bar> + \<bar>0\<bar> + \<bar>0\<bar> + \<bar>18\<bar> + \<bar>24\<bar>) / 2 ^ 48"
    using hitTest_boundary [of halfWidth hypotD "''#111111''" 8 "[]" 3 24 0 0 18 24 0] acc
    by blast
  have c: "distToSeg hypotD 3 24 0 0 18 24 - segmentDistance 3 24 0 0 18 24 = 1 / 2 ^ 49"
    by (simp only: miss_dist miss_exact) simp
  have r: "sqrt (81 :: real) = 9" "sqrt (100 :: real) = 10" "sqrt (64 :: real) = 8"
    "sqrt (256 :: real) = 16"
    using real_sqrt_abs [of "9 :: real"] real_sqrt_abs [of "10 :: real"]
      real_sqrt_abs [of "8 :: real"] real_sqrt_abs [of "16 :: real"] by simp_all
  have d: "hitObject halfWidth hypotD (Shape Line ''#111111'' 6 0 0 8 0 0) 4 9
   \<and> \<not> hitObject halfWidth hypotD (Shape Line ''#111111'' 6 0 0 8 0 0) 4 10
   \<and> hitObject halfWidth hypotD (Stroke ''#111111'' 2 [(0, 0), (8, 0), (8, 8)]) 16 0
   \<and> \<not> hitObject halfWidth hypotD (Stroke ''#111111'' 2 [(0, 0), (8, 0), (8, 8)]) 24 0
   \<and> \<not> hitObject halfWidth hypotD (Erase 10 [(0, 0)]) 0 0"
    by (simp add: distToSeg_def Let_def clamp_def hypotD_def hitTol_def orElse_def
          fsub_def fadd_def fmul_def fdiv_def fl_numeral fl_zero fl_one fl_half r)
  from acc b c d show ?thesis by blast
qed

text \<open>
  Hence a line or an arrow is hit from every point whose exact distance is below the
  tolerance by that margin, and from no point whose exact distance is above the
  tolerance by more than that margin.
\<close>

lemma hit_band:
  assumes hyp: "\<And>x y. \<bar>hyp x y - hypot x y\<bar> \<le> hypot x y / 2 ^ 52"
    and k: "k = Line \<or> k = Arrow"
  shows "segmentDistance wx wy x1 y1 x2 y2 + (\<bar>wx\<bar> + \<bar>wy\<bar> + \<bar>x1\<bar> + \<bar>y1\<bar> + \<bar>x2\<bar> + \<bar>y2\<bar>) / 2 ^ 48
           \<le> hitTol (Shape k col sz x1 y1 x2 y2 rot)
         \<Longrightarrow> hitObject mt hyp (Shape k col sz x1 y1 x2 y2 rot) wx wy"
    and "hitTol (Shape k col sz x1 y1 x2 y2 rot) + (\<bar>wx\<bar> + \<bar>wy\<bar> + \<bar>x1\<bar> + \<bar>y1\<bar> + \<bar>x2\<bar> + \<bar>y2\<bar>) / 2 ^ 48
           < segmentDistance wx wy x1 y1 x2 y2
         \<Longrightarrow> \<not> hitObject mt hyp (Shape k col sz x1 y1 x2 y2 rot) wx wy"
proof -
  note e = distToSeg_error [of hyp wx wy x1 y1 x2 y2, OF hyp]
  have h: "hitObject mt hyp (Shape k col sz x1 y1 x2 y2 rot) wx wy
             = (distToSeg hyp wx wy x1 y1 x2 y2 \<le> hitTol (Shape k col sz x1 y1 x2 y2 rot))"
    using k by auto
  show "segmentDistance wx wy x1 y1 x2 y2 + (\<bar>wx\<bar> + \<bar>wy\<bar> + \<bar>x1\<bar> + \<bar>y1\<bar> + \<bar>x2\<bar> + \<bar>y2\<bar>) / 2 ^ 48
           \<le> hitTol (Shape k col sz x1 y1 x2 y2 rot)
         \<Longrightarrow> hitObject mt hyp (Shape k col sz x1 y1 x2 y2 rot) wx wy"
    unfolding h using e by linarith
  show "hitTol (Shape k col sz x1 y1 x2 y2 rot) + (\<bar>wx\<bar> + \<bar>wy\<bar> + \<bar>x1\<bar> + \<bar>y1\<bar> + \<bar>x2\<bar> + \<bar>y2\<bar>) / 2 ^ 48
           < segmentDistance wx wy x1 y1 x2 y2
         \<Longrightarrow> \<not> hitObject mt hyp (Shape k col sz x1 y1 x2 y2 rot) wx wy"
    unfolding h using e by linarith
qed

text \<open>The same for the segments of a stroke or an eraser, each with its own margin.\<close>

lemma segments_band:
  assumes hyp: "\<And>x y. \<bar>hyp x y - hypot x y\<bar> \<le> hypot x y / 2 ^ 52"
  shows "(\<exists>i. Suc i < length pts \<and>
            segmentDistance wx wy (fst (pts ! i)) (snd (pts ! i)) (fst (pts ! Suc i)) (snd (pts ! Suc i))
              + (\<bar>wx\<bar> + \<bar>wy\<bar> + \<bar>fst (pts ! i)\<bar> + \<bar>snd (pts ! i)\<bar>
                 + \<bar>fst (pts ! Suc i)\<bar> + \<bar>snd (pts ! Suc i)\<bar>) / 2 ^ 48 \<le> tol)
         \<Longrightarrow> hitSegments hyp wx wy tol pts"
    and "(\<And>i. Suc i < length pts \<Longrightarrow>
            tol + (\<bar>wx\<bar> + \<bar>wy\<bar> + \<bar>fst (pts ! i)\<bar> + \<bar>snd (pts ! i)\<bar>
                 + \<bar>fst (pts ! Suc i)\<bar> + \<bar>snd (pts ! Suc i)\<bar>) / 2 ^ 48
              < segmentDistance wx wy (fst (pts ! i)) (snd (pts ! i)) (fst (pts ! Suc i)) (snd (pts ! Suc i)))
         \<Longrightarrow> \<not> hitSegments hyp wx wy tol pts"
proof -
  note e = distToSeg_error [of hyp wx wy, OF hyp]
  show "(\<exists>i. Suc i < length pts \<and>
            segmentDistance wx wy (fst (pts ! i)) (snd (pts ! i)) (fst (pts ! Suc i)) (snd (pts ! Suc i))
              + (\<bar>wx\<bar> + \<bar>wy\<bar> + \<bar>fst (pts ! i)\<bar> + \<bar>snd (pts ! i)\<bar>
                 + \<bar>fst (pts ! Suc i)\<bar> + \<bar>snd (pts ! Suc i)\<bar>) / 2 ^ 48 \<le> tol)
         \<Longrightarrow> hitSegments hyp wx wy tol pts"
  proof -
    assume "\<exists>i. Suc i < length pts \<and>
            segmentDistance wx wy (fst (pts ! i)) (snd (pts ! i)) (fst (pts ! Suc i)) (snd (pts ! Suc i))
              + (\<bar>wx\<bar> + \<bar>wy\<bar> + \<bar>fst (pts ! i)\<bar> + \<bar>snd (pts ! i)\<bar>
                 + \<bar>fst (pts ! Suc i)\<bar> + \<bar>snd (pts ! Suc i)\<bar>) / 2 ^ 48 \<le> tol"
    then obtain i where i: "Suc i < length pts"
      and d: "segmentDistance wx wy (fst (pts ! i)) (snd (pts ! i)) (fst (pts ! Suc i)) (snd (pts ! Suc i))
              + (\<bar>wx\<bar> + \<bar>wy\<bar> + \<bar>fst (pts ! i)\<bar> + \<bar>snd (pts ! i)\<bar>
                 + \<bar>fst (pts ! Suc i)\<bar> + \<bar>snd (pts ! Suc i)\<bar>) / 2 ^ 48 \<le> tol" by blast
    have "distToSeg hyp wx wy (fst (pts ! i)) (snd (pts ! i)) (fst (pts ! Suc i)) (snd (pts ! Suc i)) \<le> tol"
      using d e [of "fst (pts ! i)" "snd (pts ! i)" "fst (pts ! Suc i)" "snd (pts ! Suc i)"]
      by linarith
    with i show ?thesis unfolding hitSegments_iff by blast
  qed
  show "(\<And>i. Suc i < length pts \<Longrightarrow>
            tol + (\<bar>wx\<bar> + \<bar>wy\<bar> + \<bar>fst (pts ! i)\<bar> + \<bar>snd (pts ! i)\<bar>
                 + \<bar>fst (pts ! Suc i)\<bar> + \<bar>snd (pts ! Suc i)\<bar>) / 2 ^ 48
              < segmentDistance wx wy (fst (pts ! i)) (snd (pts ! i)) (fst (pts ! Suc i)) (snd (pts ! Suc i)))
         \<Longrightarrow> \<not> hitSegments hyp wx wy tol pts"
  proof -
    assume a: "\<And>i. Suc i < length pts \<Longrightarrow>
            tol + (\<bar>wx\<bar> + \<bar>wy\<bar> + \<bar>fst (pts ! i)\<bar> + \<bar>snd (pts ! i)\<bar>
                 + \<bar>fst (pts ! Suc i)\<bar> + \<bar>snd (pts ! Suc i)\<bar>) / 2 ^ 48
              < segmentDistance wx wy (fst (pts ! i)) (snd (pts ! i)) (fst (pts ! Suc i)) (snd (pts ! Suc i))"
    show ?thesis
    proof
      assume "hitSegments hyp wx wy tol pts"
      then obtain i where i: "Suc i < length pts"
        and d: "distToSeg hyp wx wy (fst (pts ! i)) (snd (pts ! i)) (fst (pts ! Suc i)) (snd (pts ! Suc i)) \<le> tol"
        unfolding hitSegments_iff by blast
      from a [OF i] d e [of "fst (pts ! i)" "snd (pts ! i)" "fst (pts ! Suc i)" "snd (pts ! Suc i)"]
      show False by linarith
    qed
  qed
qed

subsection \<open>The scale gesture\<close>

lemma selScale_move:
  assumes "active g" "mode g = SelScale" "selIndex g = int i" "i < length (objects s)"
    "selStartObj g = Some obj0" "selAnchor g = Some a" "startWorld g = Some st"
  shows "onPointerMove mt e (s, g) =
           (s\<lparr>objects := (objects s)[i := selScaleObj mt obj0 a st
                 (screenToWorld s (ev_sx e) (ev_sy e)) (shiftKey e)]\<rparr>, g)"
  using assms by (simp add: onPointerMove_def Let_def arraySet_def)

lemma selScale_moves:
  assumes "active g" "mode g = SelScale" "selIndex g = int i" "i < length (objects s)"
    "selStartObj g = Some obj0" "selAnchor g = Some a" "startWorld g = Some st"
  shows "pointerMoves mt (es @ [e]) (s, g) =
           (s\<lparr>objects := (objects s)[i := selScaleObj mt obj0 a st
                 (screenToWorld s (ev_sx e) (ev_sy e)) (shiftKey e)]\<rparr>, g)"
  using assms(4)
proof (induction es arbitrary: s)
  case Nil
  then show ?case
    using selScale_move [OF assms(1-3) _ assms(5-7)] by (simp add: pointerMoves_def)
next
  case (Cons e1 es)
  let ?s1 = "s\<lparr>objects := (objects s)[i := selScaleObj mt obj0 a st
                 (screenToWorld s (ev_sx e1) (ev_sy e1)) (shiftKey e1)]\<rparr>"
  have step: "onPointerMove mt e1 (s, g) = (?s1, g)"
    using selScale_move [OF assms(1-3) Cons.prems assms(5-7)] .
  have len: "i < length (objects ?s1)" using Cons.prems by simp
  have "pointerMoves mt ((e1 # es) @ [e]) (s, g) = pointerMoves mt (es @ [e]) (?s1, g)"
    by (simp add: pointerMoves_def step)
  also have "\<dots> = (?s1\<lparr>objects := (objects ?s1)[i := selScaleObj mt obj0 a st
                 (screenToWorld ?s1 (ev_sx e) (ev_sy e)) (shiftKey e)]\<rparr>, g)"
    using Cons.IH [OF len] .
  also have "\<dots> = (s\<lparr>objects := (objects s)[i := selScaleObj mt obj0 a st
                 (screenToWorld s (ev_sx e) (ev_sy e)) (shiftKey e)]\<rparr>, g)"
    by (simp add: screenToWorld_def)
  finally show ?case .
qed

text \<open>
  Claim C1 (snapshot purity). In a \<^verbatim>\<open>selScale\<close> gesture on the selected object number
  \<open>i\<close>, with snapshot \<open>obj0\<close>, anchor \<open>a\<close> and start point \<open>st\<close>, any sequence of
  pointer moves ending with the event \<open>e\<close> leaves the same state as the single move
  \<open>e\<close>: only object \<open>i\<close> is replaced, by the object computed from the snapshot, the
  anchor, the start point and the position (with its shift key) of the last event.
\<close>

theorem selScale_snapshot_purity:
  assumes "active g" "mode g = SelScale" "selIndex g = int i" "i < length (objects s)"
    "selStartObj g = Some obj0" "selAnchor g = Some a" "startWorld g = Some st"
  shows "pointerMoves mt (es @ [e]) (s, g) = onPointerMove mt e (s, g)
         \<and> pointerMoves mt (es @ [e]) (s, g) =
             (s\<lparr>objects := (objects s)[i := selScaleObj mt obj0 a st
                   (screenToWorld s (ev_sx e) (ev_sy e)) (shiftKey e)]\<rparr>, g)"
  using selScale_moves [OF assms] selScale_move [OF assms] by simp

theorem selScale_snapshot_purity_witness:
  "pointerMoves halfWidth
     [\<lparr>ev_sx = 120, ev_sy = 60, shiftKey = False, ctrlKey = False, metaKey = False\<rparr>,
      \<lparr>ev_sx = 10, ev_sy = 10, shiftKey = True, ctrlKey = False, metaKey = False\<rparr>,
      \<lparr>ev_sx = 150, ev_sy = 75, shiftKey = False, ctrlKey = False, metaKey = False\<rparr>]
     (initialState\<lparr>objects := [Shape Rect ''#111111'' 4 0 0 100 50 0], selectionIndex := 0\<rparr>,
      initialGesture\<lparr>active := True, mode := SelScale, selIndex := 0,
        selStartObj := Some (Shape Rect ''#111111'' 4 0 0 100 50 0),
        selAnchor := Some (50, 25), startWorld := Some (100, 50)\<rparr>)
   = (initialState\<lparr>objects := [Shape Rect ''#111111'' 4 (-50) (-25) 150 75 0], selectionIndex := 0\<rparr>,
      initialGesture\<lparr>active := True, mode := SelScale, selIndex := 0,
        selStartObj := Some (Shape Rect ''#111111'' 4 0 0 100 50 0),
        selAnchor := Some (50, 25), startWorld := Some (100, 50)\<rparr>)"
  using selScale_snapshot_purity [of
      "initialGesture\<lparr>active := True, mode := SelScale, selIndex := 0,
        selStartObj := Some (Shape Rect ''#111111'' 4 0 0 100 50 0),
        selAnchor := Some (50, 25), startWorld := Some (100, 50)\<rparr>"
      0
      "initialState\<lparr>objects := [Shape Rect ''#111111'' 4 0 0 100 50 0], selectionIndex := 0\<rparr>"
      "Shape Rect ''#111111'' 4 0 0 100 50 0" "(50, 25)" "(100, 50)" halfWidth
      "[\<lparr>ev_sx = 120, ev_sy = 60, shiftKey = False, ctrlKey = False, metaKey = False\<rparr>,
        \<lparr>ev_sx = 10, ev_sy = 10, shiftKey = True, ctrlKey = False, metaKey = False\<rparr>]"
      "\<lparr>ev_sx = 150, ev_sy = 75, shiftKey = False, ctrlKey = False, metaKey = False\<rparr>"]
  by (simp add: initialState_def initialGesture_def screenToWorld_def selScaleObj_def Let_def
        gestureFactors_def scaleObjectXY_def scaleFactor_def clamp_def isFinite_def deepClone_def
        onPointerMove_def arraySet_def)

text \<open>\<^verbatim>\<open>beginSelectionTransform("scale", ...)\<close> sets up exactly that situation.\<close>

lemma beginSelectionTransform_scale:
  assumes "0 \<le> selectionIndex s" "nat (selectionIndex s) < length (objects s)"
  shows "\<exists>s1 g1. beginSelectionTransform mt HScale w (s, g) = Inr (True, s1, g1)
           \<and> objects s1 = objects s \<and> zoom s1 = zoom s \<and> panX s1 = panX s \<and> panY s1 = panY s
           \<and> active g1 = active g \<and> mode g1 = SelScale \<and> selIndex g1 = selectionIndex s
           \<and> selStartObj g1 = Some (objects s ! nat (selectionIndex s))
           \<and> selAnchor g1 = Some (boundsCenter (objectBounds mt (objects s ! nat (selectionIndex s))))
           \<and> startWorld g1 = Some w"
  using assms
  by (simp add: beginSelectionTransform_def Let_def clearRedo_def pushUndo_def deepClone_def)

subsection \<open>Scale factors: fallbacks and clamping\<close>




text \<open>The \<^verbatim>\<open>bgScale\<close> branch of the move handler writes the background of \<open>bgScaleTo\<close>.\<close>

lemma bgScale_move:
  assumes "active g" "mode g = BgScale" "bgStart g = Some bg0" "startWorld g = Some st"
  shows "onPointerMove mt e (s, g) =
           (s\<lparr>bg := bgScaleTo bg0 st (screenToWorld s (ev_sx e) (ev_sy e))\<rparr>, g)"
  using assms by (simp add: onPointerMove_def Let_def)

subsection \<open>Angle snapping\<close>
























text \<open>
  The \<^verbatim>\<open>drawShape\<close> branch of the move handler stores \<open>drawShapeObj\<close> of the active
  object, with the snap modifier being the Ctrl or the Meta key.
\<close>

lemma drawShape_move:
  assumes "active g" "mode g = DrawShape" "activeObj g = Some i" "i < length (objects s)"
  shows "onPointerMove mt e (s, g) =
           (s\<lparr>objects := (objects s)[i := drawShapeObj (objects s ! i)
                 (screenToWorld s (ev_sx e) (ev_sy e)) (ctrlKey e \<or> metaKey e)]\<rparr>, g)"
  using assms by (simp add: onPointerMove_def Let_def updateActive_def)


text \<open>In general, a segment shorter than 0.0001 is stored as the pointer gives it.\<close>

lemma short_segment_unsnapped:
  assumes "hypot (wx - x1) (wy - y1) < 0.0001"
  shows "drawShapeObj (Shape k col sz x1 y1 x2 y2 rot) (wx, wy) held = Shape k col sz x1 y1 wx wy rot"
  using assms by (simp add: snapEndpointToAngles_def Let_def)



subsection \<open>Vector export: erase masks\<close>

lemma exportLoop_Cons: "exportLoop fm mt st (ob # objs) = exportLoop fm mt (exportStep fm mt st ob) objs"
  by (simp add: exportLoop_def)

lemma exportLoop_append:
  "exportLoop fm mt st (xs @ ys) = exportLoop fm mt (exportLoop fm mt st xs) ys"
  by (simp add: exportLoop_def)

lemma exportLoop_shape:
  "inkMarkup (exportLoop fm mt st objs)
     = opensAfter fm (maskCount st) objs @ pastLayer st @ markupAfter fm mt (currentLayer st) objs"
proof (induction objs arbitrary: st)
  case Nil
  then show ?case by (simp add: exportLoop_def inkMarkup_def)
next
  case (Cons ob objs)
  show ?case
  proof (cases ob)
    case (Erase sz pts)
    then show ?thesis
      by (simp add: exportLoop_Cons Cons.IH wrapWithEraseMask_def Let_def)
  qed (simp_all add: exportLoop_Cons Cons.IH)
qed

lemma pathFromPoints_nonempty: "2 \<le> length pts \<Longrightarrow> pathFromPoints fm pts \<noteq> []"
  by (simp add: pathFromPoints_def)

lemma exportStep_eraser:
  assumes "2 \<le> length pts"
  shows "exportStep fm mt st (Erase sz pts)
           = \<lparr>defs = defs st @ maskDef fm (maskCount st + 1) (pathFromPoints fm pts) (max 1 (orElse sz 20)),
              pastLayer = maskOpen (maskCount st + 1) @ inkMarkup st @ ''</g>'',
              currentLayer = [],
              maskCount = maskCount st + 1\<rparr>"
  using pathFromPoints_nonempty [OF assms, of fm]
  by (simp add: wrapWithEraseMask_def Let_def inkMarkup_def)

text \<open>
  Claim C3 as stated fails for an eraser object with fewer than two points (a click with
  the eraser): \<^verbatim>\<open>pathFromPoints\<close> gives the empty path and the loop skips the object.
  After a line and such an eraser no mask exists and the line is exported bare.
\<close>

theorem erase_masking_counterexample:
  "maskCount (exportLoop decFmt halfWidth exp_init
      [Shape Line ''#111111'' 5 0 0 10 0 0, Erase 10 [(5, 0)]]) = 0
   \<and> defs (exportLoop decFmt halfWidth exp_init
      [Shape Line ''#111111'' 5 0 0 10 0 0, Erase 10 [(5, 0)]]) = []
   \<and> inkMarkup (exportLoop decFmt halfWidth exp_init
      [Shape Line ''#111111'' 5 0 0 10 0 0, Erase 10 [(5, 0)]])
     = objMarkup decFmt halfWidth (Shape Line ''#111111'' 5 0 0 10 0 0)"
  by (simp add: exportLoop_def exp_init_def inkMarkup_def pathFromPoints_def del: objMarkup.simps)

text \<open>In general, the loop skips every eraser with fewer than two points.\<close>

lemma eraser_short_skipped:
  assumes "length pts < 2"
  shows "exportStep fm mt st (Erase sz pts) = st"
    and "exportLoop fm mt st (before @ [Erase sz pts] @ after) = exportLoop fm mt st (before @ after)"
  using assms by (simp_all add: pathFromPoints_def exportLoop_def)

text \<open>
  Claim C3, amended. For every object sequence \<open>before @ [Erase sz pts] @ after\<close> whose
  eraser has at least two points: the eraser adds one mask, numbered one more than the
  masks before it, whose shape is the eraser's path stroked with width
  \<open>max 1 (sz || 20)\<close>; the group under that mask holds exactly the ink markup of
  \<open>before\<close> (earlier masked groups and the current run) and the current run restarts
  empty; in the final ink markup that group is intact, preceded only by the opening tags
  of the groups of later erasers and followed by the markup of \<open>after\<close>, neither of
  which depends on the eraser's path or width.
\<close>

theorem erase_masking_order:
  assumes "2 \<le> length pts"
  shows "maskCount (exportLoop fm mt exp_init (before @ [Erase sz pts]))
           = maskCount (exportLoop fm mt exp_init before) + 1
         \<and> defs (exportLoop fm mt exp_init (before @ [Erase sz pts]))
           = defs (exportLoop fm mt exp_init before)
             @ maskDef fm (maskCount (exportLoop fm mt exp_init before) + 1)
                 (pathFromPoints fm pts) (max 1 (orElse sz 20))
         \<and> pastLayer (exportLoop fm mt exp_init (before @ [Erase sz pts]))
           = maskOpen (maskCount (exportLoop fm mt exp_init before) + 1)
             @ inkMarkup (exportLoop fm mt exp_init before) @ ''</g>''
         \<and> currentLayer (exportLoop fm mt exp_init (before @ [Erase sz pts])) = []
         \<and> inkMarkup (exportLoop fm mt exp_init (before @ [Erase sz pts] @ after))
           = opensAfter fm (maskCount (exportLoop fm mt exp_init before) + 1) after
             @ (maskOpen (maskCount (exportLoop fm mt exp_init before) + 1)
                @ inkMarkup (exportLoop fm mt exp_init before) @ ''</g>'')
             @ markupAfter fm mt [] after"
proof -
  let ?A = "exportLoop fm mt exp_init before"
  let ?B = "exportLoop fm mt exp_init (before @ [Erase sz pts])"
  have B: "?B = \<lparr>defs = defs ?A @ maskDef fm (maskCount ?A + 1) (pathFromPoints fm pts)
                          (max 1 (orElse sz 20)),
                 pastLayer = maskOpen (maskCount ?A + 1) @ inkMarkup ?A @ ''</g>'',
                 currentLayer = [],
                 maskCount = maskCount ?A + 1\<rparr>"
    using exportStep_eraser [OF assms, of fm mt ?A sz]
    by (simp add: exportLoop_append exportLoop_Cons exportLoop_def)
  have F: "exportLoop fm mt exp_init (before @ [Erase sz pts] @ after) = exportLoop fm mt ?B after"
    using exportLoop_append [of fm mt exp_init "before @ [Erase sz pts]" after] by simp
  have "inkMarkup (exportLoop fm mt ?B after)
          = opensAfter fm (maskCount ?B) after @ pastLayer ?B @ markupAfter fm mt (currentLayer ?B) after"
    by (rule exportLoop_shape)
  then have last: "inkMarkup (exportLoop fm mt exp_init (before @ [Erase sz pts] @ after))
          = opensAfter fm (maskCount ?A + 1) after
            @ (maskOpen (maskCount ?A + 1) @ inkMarkup ?A @ ''</g>'')
            @ markupAfter fm mt [] after"
    unfolding F by (simp add: B)
  show ?thesis using last by (simp add: B)
qed

theorem erase_masking_order_witness:
  "2 \<le> length [(0 :: real, 5 :: real), (10, 5)]
   \<and> pathFromPoints decFmt [(0, 5), (10, 5)] = ''M 0.00 5.00 L 10.00 5.00''
   \<and> defs (exportLoop decFmt halfWidth exp_init
        ([Shape Line ''#111111'' 5 0 0 10 0 0] @ [Erase 10 [(0, 5), (10, 5)]]))
       = maskDef decFmt 1 ''M 0.00 5.00 L 10.00 5.00'' 10
   \<and> inkMarkup (exportLoop decFmt halfWidth exp_init
        ([Shape Line ''#111111'' 5 0 0 10 0 0] @ [Erase 10 [(0, 5), (10, 5)]]
         @ [Shape Line ''#ff0000'' 5 0 10 10 10 0]))
       = maskOpen 1 @ objMarkup decFmt halfWidth (Shape Line ''#111111'' 5 0 0 10 0 0) @ ''</g>''
         @ objMarkup decFmt halfWidth (Shape Line ''#ff0000'' 5 0 10 10 10 0)"
proof -
  have len: "2 \<le> length [(0 :: real, 5 :: real), (10, 5)]" by simp
  have p: "pathFromPoints decFmt [(0, 5), (10, 5)] = ''M 0.00 5.00 L 10.00 5.00''"
    by (simp add: pathFromPoints_def decFmt_def toFixedDec_def padZeros_def)
  have A: "exportLoop decFmt halfWidth exp_init [Shape Line ''#111111'' 5 0 0 10 0 0]
             = \<lparr>defs = [], pastLayer = [],
                currentLayer = objMarkup decFmt halfWidth (Shape Line ''#111111'' 5 0 0 10 0 0),
                maskCount = 0\<rparr>"
    by (simp add: exportLoop_def exp_init_def del: objMarkup.simps)
  have m: "markupAfter decFmt halfWidth [] [Shape Line ''#ff0000'' 5 0 10 10 10 0]
             = objMarkup decFmt halfWidth (Shape Line ''#ff0000'' 5 0 10 10 10 0)"
    by (simp del: objMarkup.simps)
  have w: "max 1 (orElse 10 20) = (10 :: real)" by (simp add: orElse_def)
  note t = erase_masking_order [OF len, of decFmt halfWidth
      "[Shape Line ''#111111'' 5 0 0 10 0 0]" 10 "[Shape Line ''#ff0000'' 5 0 10 10 10 0]"]
  have d: "defs (exportLoop decFmt halfWidth exp_init
        ([Shape Line ''#111111'' 5 0 0 10 0 0] @ [Erase 10 [(0, 5), (10, 5)]]))
       = maskDef decFmt 1 ''M 0.00 5.00 L 10.00 5.00'' 10"
    using t by (simp add: A p w del: objMarkup.simps)
  have i: "inkMarkup (exportLoop decFmt halfWidth exp_init
        ([Shape Line ''#111111'' 5 0 0 10 0 0] @ [Erase 10 [(0, 5), (10, 5)]]
         @ [Shape Line ''#ff0000'' 5 0 10 10 10 0]))
       = maskOpen 1 @ objMarkup decFmt halfWidth (Shape Line ''#111111'' 5 0 0 10 0 0) @ ''</g>''
         @ objMarkup decFmt halfWidth (Shape Line ''#ff0000'' 5 0 10 10 10 0)"
    using t by (simp add: A m inkMarkup_def del: objMarkup.simps)
  from len p d i show ?thesis by blast
qed

text \<open>Without a later eraser the markup of the later objects simply follows the group.\<close>

lemma after_plain:
  "\<forall>ob\<in>set objs. \<forall>sz pts. ob \<noteq> Erase sz pts \<Longrightarrow>
     opensAfter fm n objs = [] \<and> markupAfter fm mt cur objs = cur @ concat (map (objMarkup fm mt) objs)"
proof (induction objs arbitrary: cur)
  case Nil
  then show ?case by simp
next
  case (Cons ob objs)
  then show ?case by (cases ob) simp_all
qed

end
